theory Spec2Isabelle
  imports Main "HOL-Library.AList"
begin

section \<open>Case-insensitive strings and dictionaries (madseq/util.py)\<close>

text \<open>
  \<^verbatim>\<open>stri\<close> is a \<^verbatim>\<open>str\<close> whose \<^verbatim>\<open>__eq__\<close> compares
  \<^verbatim>\<open>self.lower() == str(other).lower()\<close>. Strings are modelled as ASCII
  character lists; \<^verbatim>\<open>lower\<close> maps the letters A-Z to a-z and leaves every other
  character alone.
\<close>

definition lower_char :: "char \<Rightarrow> char" where
  "lower_char c =
     (case map_of (zip ''ABCDEFGHIJKLMNOPQRSTUVWXYZ'' ''abcdefghijklmnopqrstuvwxyz'') c of
        Some d \<Rightarrow> d
      | None \<Rightarrow> c)"

definition lower :: "string \<Rightarrow> string" where
  "lower s = map lower_char s"

text \<open>
  \<^verbatim>\<open>stri(None)\<close> is \<^verbatim>\<open>None\<close> (the constructor is
  \<^verbatim>\<open>none_checked\<close>), so a name or type is an optional string.
  \<^verbatim>\<open>str(None)\<close> is the text \<^verbatim>\<open>None\<close>; comparing a
  \<^verbatim>\<open>stri\<close> with \<^verbatim>\<open>None\<close> therefore compares the lowered
  texts, and \<^verbatim>\<open>None == None\<close> holds as well.
\<close>

definition str_opt :: "string option \<Rightarrow> string" where
  "str_opt s = (case s of None \<Rightarrow> ''None'' | Some t \<Rightarrow> t)"

definition stri_eq :: "string option \<Rightarrow> string option \<Rightarrow> bool" where
  "stri_eq a b = (lower (str_opt a) = lower (str_opt b))"

text \<open>
  The name of an element is \<^verbatim>\<open>None\<close>, a \<^verbatim>\<open>stri\<close> (what the constructor
  \<^verbatim>\<open>Element(name, ...)\<close> stores) or a plain \<^verbatim>\<open>str\<close>: the slices of
  \<^verbatim>\<open>uniform_slice_distribution\<close> get their name by assignment, and
  \<^verbatim>\<open>elem.name + '..' + str(i)\<close> is a plain text. Two plain texts compare exactly; as
  soon as one side is a \<^verbatim>\<open>stri\<close> its \<^verbatim>\<open>__eq__\<close> decides (also when it is the
  right operand, being of a subclass of \<^verbatim>\<open>str\<close>).
\<close>

datatype name_text = Stri string | Plain string

definition text_of :: "name_text \<Rightarrow> string" where
  "text_of x = (case x of Stri s \<Rightarrow> s | Plain s \<Rightarrow> s)"

text \<open>\<^verbatim>\<open>str(name)\<close>\<close>

definition name_str :: "name_text option \<Rightarrow> string" where
  "name_str nm = (case nm of None \<Rightarrow> ''None'' | Some x \<Rightarrow> text_of x)"

text \<open>The constructor \<^verbatim>\<open>stri\<close> applied to a name; \<^verbatim>\<open>stri(None)\<close> is \<^verbatim>\<open>None\<close>.\<close>

definition stri :: "name_text option \<Rightarrow> name_text option" where
  "stri nm = (case nm of None \<Rightarrow> None | Some x \<Rightarrow> Some (Stri (text_of x)))"

definition truthy_name :: "name_text option \<Rightarrow> bool" where
  "truthy_name nm = (case nm of None \<Rightarrow> False | Some x \<Rightarrow> text_of x \<noteq> [])"

text \<open>\<^verbatim>\<open>a == b\<close> for two names.\<close>

definition name_eq :: "name_text option \<Rightarrow> name_text option \<Rightarrow> bool" where
  "name_eq a b =
     (case (a, b) of
        (None, None) \<Rightarrow> True
      | (Some (Plain s), Some (Plain t)) \<Rightarrow> s = t
      | (Some (Plain s), None) \<Rightarrow> False
      | (None, Some (Plain t)) \<Rightarrow> False
      | _ \<Rightarrow> lower (name_str a) = lower (name_str b))"

text \<open>Truth value of an optional string: \<^verbatim>\<open>None\<close> and the empty text are false.\<close>

definition truthy_str :: "string option \<Rightarrow> bool" where
  "truthy_str s = (case s of None \<Rightarrow> False | Some t \<Rightarrow> t \<noteq> [])"

text \<open>
  \<^verbatim>\<open>dicti\<close>/\<^verbatim>\<open>odicti\<close> (package pydicti) are dictionaries whose keys are
  looked up case-insensitively. They are modelled as association lists in insertion order
  whose keys are stored lowered; assigning to a key that is present keeps its position.
\<close>

type_synonym 'v dicti = "(string \<times> 'v) list"

definition dicti_get :: "'v dicti \<Rightarrow> string \<Rightarrow> 'v option" where
  "dicti_get d key = map_of d (lower key)"

definition dicti_contains :: "'v dicti \<Rightarrow> string \<Rightarrow> bool" where
  "dicti_contains d key = (dicti_get d key \<noteq> None)"

definition dicti_set :: "'v dicti \<Rightarrow> string \<Rightarrow> 'v \<Rightarrow> 'v dicti" where
  "dicti_set d key v = AList.update (lower key) v d"

definition dicti_del :: "'v dicti \<Rightarrow> string \<Rightarrow> 'v dicti" where
  "dicti_del d key = AList.delete (lower key) d"

definition dicti_update :: "'v dicti \<Rightarrow> 'v dicti \<Rightarrow> 'v dicti" where
  "dicti_update d other = foldl (\<lambda>acc (k, v). dicti_set acc k v) d other"

definition dicti_of :: "(string \<times> 'v) list \<Rightarrow> 'v dicti" where
  "dicti_of kvs = dicti_update [] kvs"

text \<open>
  Dictionary equality: the same number of keys, and every key of the left dictionary is
  a key of the right one with an equal value. The equality of the values is the
  \<^verbatim>\<open>==\<close> of the value type.
\<close>

definition dicti_eq :: "('v \<Rightarrow> 'v \<Rightarrow> bool) \<Rightarrow> 'v dicti \<Rightarrow> 'v dicti \<Rightarrow> bool" where
  "dicti_eq veq d1 d2 =
     (length d1 = length d2 \<and>
      list_all (\<lambda>(k, v). case map_of d2 k of None \<Rightarrow> False | Some w \<Rightarrow> veq v w) d1)"

section \<open>Errors\<close>

text \<open>
  The exceptions the modelled code can raise. \<^verbatim>\<open>Unmodelled\<close> marks the two library
  calls whose result is not modelled: \<^verbatim>\<open>Decimal(x)\<close> for a text or a plain list
  \<^verbatim>\<open>x\<close> (the library parses the text, or reads the list as a sign-digits-exponent
  triple). Nothing is claimed about a run that reaches one of them.
\<close>

datatype error =
    KeyError string
  | TypeError
  | ValueError
  | AssertionError
  | AttributeError
  | ZeroDivisionError
  | InvalidOperation
  | IndexError
  | Unmodelled

text \<open>Sequencing of computations that can raise.\<close>

definition bind_result :: "error + 'a \<Rightarrow> ('a \<Rightarrow> error + 'b) \<Rightarrow> error + 'b" where
  "bind_result m f = (case m of Inl err \<Rightarrow> Inl err | Inr x \<Rightarrow> f x)"

section \<open>Elements (madseq/types.py, class Element)\<close>

text \<open>
  An element has a name, a type, its own arguments and a base. The base is
  \<^verbatim>\<open>None\<close>, a reference to an element that was built before, or (when
  \<^verbatim>\<open>Sequence.detect\<close> resolves a LINE that names another LINE) a \<^verbatim>\<open>Line\<close>
  object, which has a name and a list of element names and none of the methods of an
  element. Inside the functions modelled here a referenced base is never modified, so the
  reference is modelled by the referenced value.
\<close>

datatype 'v element =
  Element (name: "name_text option") (type: "string option") (args: "'v dicti") (base: "'v base")
and 'v base =
    NoBase
  | ElemBase "'v element"
  | LineBase "string option" "string list"

text \<open>
  \<^verbatim>\<open>Element.base_type\<close>: the type of the root of the base chain. A \<^verbatim>\<open>Line\<close> has
  no attribute \<^verbatim>\<open>base_type\<close>.
\<close>

fun base_type :: "'v element \<Rightarrow> error + string option" where
  "base_type (Element n t a b) =
     (case b of
        ElemBase be \<Rightarrow> base_type be
      | LineBase nm els \<Rightarrow> Inl AttributeError
      | NoBase \<Rightarrow> Inr t)"

text \<open>\<^verbatim>\<open>Element.all_args\<close>: the base's merged arguments, updated with the own ones.\<close>

fun all_args :: "'v element \<Rightarrow> error + 'v dicti" where
  "all_args (Element n t a b) =
     bind_result
       (case b of
          ElemBase be \<Rightarrow> all_args be
        | LineBase nm els \<Rightarrow> Inl AttributeError
        | NoBase \<Rightarrow> Inr [])
       (\<lambda>merged. Inr (dicti_update merged a))"

text \<open>
  \<^verbatim>\<open>Element.copy\<close>: a new element built by the constructor from the name, the type,
  a copy of the arguments and the base; the constructor stores the name as a \<^verbatim>\<open>stri\<close>.
\<close>

definition copy :: "'v element \<Rightarrow> 'v element" where
  "copy e = Element (stri (name e)) (type e) (args e) (base e)"

text \<open>
  \<^verbatim>\<open>Element.__contains__\<close>: \<^verbatim>\<open>key in self.args or (self._base and key in
  self._base)\<close>; a \<^verbatim>\<open>Line\<close> does not support \<^verbatim>\<open>in\<close>.
\<close>

fun contains :: "'v element \<Rightarrow> string \<Rightarrow> error + bool" where
  "contains (Element n t a b) key =
     (if dicti_contains a key then Inr True
      else case b of
        ElemBase be \<Rightarrow> contains be key
      | LineBase nm els \<Rightarrow> Inl TypeError
      | NoBase \<Rightarrow> Inr False)"

text \<open>\<^verbatim>\<open>Element.__delitem__\<close>: raises \<^verbatim>\<open>KeyError\<close> when the key is not an own argument.\<close>

definition delitem :: "'v element \<Rightarrow> string \<Rightarrow> error + 'v element" where
  "delitem e key =
     (if dicti_contains (args e) key
      then Inr (Element (name e) (type e) (dicti_del (args e) key) (base e))
      else Inl (KeyError key))"

text \<open>
  \<^verbatim>\<open>Element.__getitem__\<close>: the own argument; on \<^verbatim>\<open>KeyError\<close> the base's
  \<^verbatim>\<open>__getitem__\<close> when there is a base, else the \<^verbatim>\<open>KeyError\<close> is raised again.
  Indexing a \<^verbatim>\<open>Line\<close> is a \<^verbatim>\<open>TypeError\<close>.
\<close>

fun getitem :: "'v element \<Rightarrow> string \<Rightarrow> error + 'v" where
  "getitem (Element n t a b) key =
     (case dicti_get a key of
        Some v \<Rightarrow> Inr v
      | None \<Rightarrow>
          (case b of
             ElemBase be \<Rightarrow> getitem be key
           | LineBase nm els \<Rightarrow> Inl TypeError
           | NoBase \<Rightarrow> Inl (KeyError key)))"

text \<open>\<^verbatim>\<open>Element.__setitem__\<close>\<close>

definition setitem :: "'v element \<Rightarrow> string \<Rightarrow> 'v \<Rightarrow> 'v element" where
  "setitem e key val = Element (name e) (type e) (dicti_set (args e) key val) (base e)"

text \<open>\<^verbatim>\<open>Element.get\<close>: \<^verbatim>\<open>self[key]\<close>, the default on \<^verbatim>\<open>KeyError\<close>.\<close>

definition get :: "'v element \<Rightarrow> string \<Rightarrow> 'v \<Rightarrow> error + 'v" where
  "get e key dflt =
     (case getitem e key of
        Inr v \<Rightarrow> Inr v
      | Inl (KeyError k) \<Rightarrow> Inr dflt
      | Inl err \<Rightarrow> Inl err)"

text \<open>
  \<^verbatim>\<open>Element.pop(key, *default)\<close>: removes and returns the own argument; when there
  is none, reads (without removing) the base's value; when that fails with
  \<^verbatim>\<open>KeyError\<close> or with \<^verbatim>\<open>TypeError\<close> (there is no base, or it is a
  \<^verbatim>\<open>Line\<close>), the default if one was given, else that error. The result is the value
  found (\<open>Inl\<close>) or the default (\<open>Inr\<close>), and the element after the call.
\<close>

definition pop :: "'v element \<Rightarrow> string \<Rightarrow> 'd option \<Rightarrow> error + (('v + 'd) \<times> 'v element)" where
  "pop e key dflt =
     (case dicti_get (args e) key of
        Some v \<Rightarrow> Inr (Inl v, Element (name e) (type e) (dicti_del (args e) key) (base e))
      | None \<Rightarrow>
          (case (case base e of
                   NoBase \<Rightarrow> Inl TypeError
                 | LineBase nm els \<Rightarrow> Inl TypeError
                 | ElemBase be \<Rightarrow> getitem be key) of
             Inr v \<Rightarrow> Inr (Inl v, e)
           | Inl err \<Rightarrow>
               (if (case err of KeyError k \<Rightarrow> True | TypeError \<Rightarrow> True | _ \<Rightarrow> False)
                then (case dflt of Some d \<Rightarrow> Inr (Inr d, e) | None \<Rightarrow> Inl err)
                else Inl err)))"

text \<open>
  \<^verbatim>\<open>Element.__eq__\<close>: name, type and own arguments; the base is not looked at.
\<close>

definition elem_eq :: "('v \<Rightarrow> 'v \<Rightarrow> bool) \<Rightarrow> 'v element \<Rightarrow> 'v element \<Rightarrow> bool" where
  "elem_eq veq x y =
     (name_eq (name x) (name y) \<and> stri_eq (type x) (type y) \<and> dicti_eq veq (args x) (args y))"

text \<open>The element layers of the base chain, the element itself first.\<close>

fun chain :: "'v element \<Rightarrow> 'v element list" where
  "chain (Element n t a b) =
     Element n t a b # (case b of ElemBase be \<Rightarrow> chain be | _ \<Rightarrow> [])"

section \<open>Numbers: Python integers and \<^verbatim>\<open>decimal.Decimal\<close>\<close>

text \<open>
  Python integers are unbounded (\<^typ>\<open>int\<close>). A finite \<^verbatim>\<open>Decimal\<close> is a
  coefficient and an exponent, standing for coefficient times ten to the exponent.
  Arithmetic is that of the default context: the exact result, rounded half-even to
  28 significant digits. Negative zero, infinities, NaN and the exponent limits of the
  context are not modelled.
\<close>

function ndigits :: "nat \<Rightarrow> nat" where
  "ndigits n = (if n < 10 then 1 else Suc (ndigits (n div 10)))"
  by pat_completeness auto
termination
  by (relation "measure id") auto

declare ndigits.simps [simp del]

definition digit_char :: "nat \<Rightarrow> char" where
  "digit_char d = ''0123456789'' ! d"

function str_nat :: "nat \<Rightarrow> string" where
  "str_nat n = (if n < 10 then [digit_char n] else str_nat (n div 10) @ [digit_char (n mod 10)])"
  by pat_completeness auto
termination
  by (relation "measure id") auto

declare str_nat.simps [simp del]

text \<open>\<^verbatim>\<open>str(i)\<close> for an integer.\<close>

definition str_int :: "int \<Rightarrow> string" where
  "str_int i = (if i < 0 then CHR ''-'' # str_nat (nat (- i)) else str_nat (nat i))"

datatype dec = Dec (coeff: int) (expo: int)

definition prec :: nat where
  "prec = 28"

definition round_half_even :: "nat \<Rightarrow> nat \<Rightarrow> nat" where
  "round_half_even n k =
     (let p = 10 ^ k; q = n div p; r = n mod p
      in if 2 * r > p \<or> (2 * r = p \<and> odd q) then q + 1 else q)"

text \<open>Rounding a result to the precision of the context.\<close>

definition dec_fix :: "dec \<Rightarrow> dec" where
  "dec_fix x =
     (let n = nat \<bar>coeff x\<bar>; d = ndigits n
      in if d \<le> prec then x
         else
           let k = d - prec; q = round_half_even n k
           in if ndigits q > prec
              then Dec (sgn (coeff x) * int (q div 10)) (expo x + int k + 1)
              else Dec (sgn (coeff x) * int q) (expo x + int k))"

definition dec_add :: "dec \<Rightarrow> dec \<Rightarrow> dec" where
  "dec_add x y =
     (let e = min (expo x) (expo y)
      in dec_fix (Dec (coeff x * 10 ^ nat (expo x - e) + coeff y * 10 ^ nat (expo y - e)) e))"

definition dec_neg :: "dec \<Rightarrow> dec" where
  "dec_neg x = Dec (- coeff x) (expo x)"

definition dec_sub :: "dec \<Rightarrow> dec \<Rightarrow> dec" where
  "dec_sub x y = dec_add x (dec_neg y)"

definition dec_mul :: "dec \<Rightarrow> dec \<Rightarrow> dec" where
  "dec_mul x y = dec_fix (Dec (coeff x * coeff y) (expo x + expo y))"

function strip_to_ideal :: "nat \<Rightarrow> int \<Rightarrow> int \<Rightarrow> nat \<times> int" where
  "strip_to_ideal c e ideal =
     (if e < ideal \<and> c mod 10 = 0 then strip_to_ideal (c div 10) (e + 1) ideal else (c, e))"
  by pat_completeness auto
termination
  by (relation "measure (\<lambda>(c, e, ideal). nat (ideal - e))") auto

declare strip_to_ideal.simps [simp del]

text \<open>
  Division: an exact quotient gets the exponent closest to the difference of the
  exponents; an inexact one is computed to one digit more than the precision, marked as
  inexact and rounded.
\<close>

definition dec_div :: "dec \<Rightarrow> dec \<Rightarrow> error + dec" where
  "dec_div x y =
     (if coeff y = 0 then (if coeff x = 0 then Inl InvalidOperation else Inl ZeroDivisionError)
      else if coeff x = 0 then Inr (dec_fix (Dec 0 (expo x - expo y)))
      else
        let a = nat \<bar>coeff x\<bar>; b = nat \<bar>coeff y\<bar>;
            shift = int (ndigits b) - int (ndigits a) + int prec + 1;
            e = expo x - expo y - shift;
            num = (if shift \<ge> 0 then a * 10 ^ nat shift else a);
            den = (if shift \<ge> 0 then b else b * 10 ^ nat (- shift));
            c = num div den; r = num mod den;
            (c', e') = (if r \<noteq> 0 then (if c mod 5 = 0 then c + 1 else c, e)
                        else strip_to_ideal c e (expo x - expo y))
        in Inr (dec_fix (Dec (sgn (coeff x) * sgn (coeff y) * int c') e')))"

definition dec_abs :: "dec \<Rightarrow> dec" where
  "dec_abs x = dec_fix (Dec \<bar>coeff x\<bar> (expo x))"

text \<open>\<^verbatim>\<open>math.ceil\<close> of a \<^verbatim>\<open>Decimal\<close>, an integer.\<close>

definition dec_ceil :: "dec \<Rightarrow> int" where
  "dec_ceil x =
     (if expo x \<ge> 0 then coeff x * 10 ^ nat (expo x)
      else - ((- coeff x) div 10 ^ nat (- expo x)))"

text \<open>Numerical equality of two decimals, and of a decimal and an integer.\<close>

definition dec_eq :: "dec \<Rightarrow> dec \<Rightarrow> bool" where
  "dec_eq x y =
     (let e = min (expo x) (expo y)
      in coeff x * 10 ^ nat (expo x - e) = coeff y * 10 ^ nat (expo y - e))"

function strip_zeros :: "nat \<Rightarrow> int \<Rightarrow> nat \<times> int" where
  "strip_zeros c e = (if c \<noteq> 0 \<and> c mod 10 = 0 then strip_zeros (c div 10) (e + 1) else (c, e))"
  by pat_completeness auto
termination
  by (relation "measure (\<lambda>(c, e). c)") auto

declare strip_zeros.simps [simp del]

text \<open>\<^verbatim>\<open>Decimal.normalize\<close>: rounded, and without trailing zeros in the coefficient.\<close>

definition normalize :: "dec \<Rightarrow> dec" where
  "normalize x =
     (let y = dec_fix x
      in if coeff y = 0 then Dec 0 0
         else let (c, e) = strip_zeros (nat \<bar>coeff y\<bar>) (expo y) in Dec (sgn (coeff y) * int c) e)"

text \<open>
  \<^verbatim>\<open>str\<close> of a \<^verbatim>\<open>Decimal\<close>: plain notation when the exponent is at most zero
  and the number has more than -6 digits left of the point, scientific notation otherwise.
\<close>

definition dec_str :: "dec \<Rightarrow> string" where
  "dec_str x =
     (let ds = str_nat (nat \<bar>coeff x\<bar>);
          n = int (length ds);
          leftdigits = expo x + n;
          dotplace = (if expo x \<le> 0 \<and> leftdigits > - 6 then leftdigits else 1);
          intpart = (if dotplace \<le> 0 then ''0''
                     else if dotplace \<ge> n then ds @ replicate (nat (dotplace - n)) CHR ''0''
                     else take (nat dotplace) ds);
          fracpart = (if dotplace \<le> 0 then ''.'' @ replicate (nat (- dotplace)) CHR ''0'' @ ds
                      else if dotplace \<ge> n then ''''
                      else ''.'' @ drop (nat dotplace) ds);
          ex = (if leftdigits = dotplace then ''''
                else ''E'' @ (if leftdigits - dotplace < 0 then [] else ''+'')
                     @ str_int (leftdigits - dotplace))
      in (if coeff x < 0 then ''-'' else '''') @ intpart @ fracpart @ ex)"

section \<open>Values (madseq/types.py)\<close>

text \<open>
  The values an argument can hold: an integer, a \<^verbatim>\<open>Decimal\<close>, a text, a plain list,
  and the three \<^verbatim>\<open>Value\<close> classes \<^verbatim>\<open>Identifier\<close>, \<^verbatim>\<open>Composed\<close> (both
  \<^verbatim>\<open>Symbolic\<close>) and \<^verbatim>\<open>Array\<close>. A \<^verbatim>\<open>Value\<close> object has the two instance
  attributes that \<^verbatim>\<open>Value.__init__\<close> sets: \<^verbatim>\<open>value\<close> and \<^verbatim>\<open>_assign\<close>.
\<close>

datatype pyval =
    PInt int
  | PDec dec
  | PStr string
  | PList "pyval list"
  | Identifier string string
  | Composed string string
  | Array "pyval list" string

text \<open>
  \<^verbatim>\<open>getattr(obj, attr, default)\<close> for a text-valued attribute. Only a \<^verbatim>\<open>Value\<close>
  object has instance attributes, and the assignment symbol is stored under the name
  \<^verbatim>\<open>_assign\<close>; \<^verbatim>\<open>expr\<close> and \<^verbatim>\<open>safe_expr\<close> are the properties below.
\<close>

fun attr_assign :: "pyval \<Rightarrow> string option" where
  "attr_assign (Identifier v a) = Some a"
| "attr_assign (Composed v a) = Some a"
| "attr_assign (Array vs a) = Some a"
| "attr_assign _ = None"

definition getattr :: "pyval \<Rightarrow> string \<Rightarrow> string \<Rightarrow> string" where
  "getattr obj attr dflt =
     (if attr = ''_assign'' then (case attr_assign obj of Some a \<Rightarrow> a | None \<Rightarrow> dflt)
      else dflt)"

definition is_symbolic :: "pyval \<Rightarrow> bool" where
  "is_symbolic v = (case v of Identifier _ _ \<Rightarrow> True | Composed _ _ \<Rightarrow> True | _ \<Rightarrow> False)"

fun join :: "string \<Rightarrow> string list \<Rightarrow> string" where
  "join sep [] = []"
| "join sep [x] = x"
| "join sep (x # y # ys) = x @ sep @ join sep (y # ys)"

text \<open>
  \<^verbatim>\<open>str(v)\<close>, \<^verbatim>\<open>Value.expr\<close> and \<^verbatim>\<open>format_value\<close>. An \<^verbatim>\<open>Array\<close> prints
  its fields with \<^verbatim>\<open>str\<close>; the fields of an array are parsed values, never a plain
  list, and \<^verbatim>\<open>str\<close> of a plain list is given the braces form here.
\<close>

fun py_str :: "pyval \<Rightarrow> string" where
  "py_str (PInt i) = str_int i"
| "py_str (PDec d) = dec_str d"
| "py_str (PStr s) = s"
| "py_str (PList vs) = ''{'' @ join '','' (map py_str vs) @ ''}''"
| "py_str (Identifier v a) = v"
| "py_str (Composed v a) = v"
| "py_str (Array vs a) = ''{'' @ join '','' (map py_str vs) @ ''}''"

fun format_value :: "pyval \<Rightarrow> string" where
  "format_value (Identifier v a) = v"
| "format_value (Composed v a) = v"
| "format_value (Array vs a) = ''{'' @ join '','' (map py_str vs) @ ''}''"
| "format_value (PDec d) = dec_str (normalize d)"
| "format_value (PStr s) = ''\"'' @ s @ ''\"''"
| "format_value (PInt i) = str_int i"
| "format_value (PList vs) = ''{'' @ join '','' (map format_value vs) @ ''}''"

text \<open>\<^verbatim>\<open>format_safe\<close>: \<^verbatim>\<open>Composed.safe_expr\<close> adds parentheses.\<close>

fun format_safe :: "pyval \<Rightarrow> string" where
  "format_safe (Composed v a) = ''('' @ v @ '')''"
| "format_safe v = format_value v"

text \<open>
  \<^verbatim>\<open>Composed.create(a, x, b)\<close>. It reads the attribute \<^verbatim>\<open>assign\<close> of both
  operands with \<^verbatim>\<open>getattr(a, 'assign', '=')\<close>.
\<close>

definition Composed_create :: "pyval \<Rightarrow> string \<Rightarrow> pyval \<Rightarrow> pyval" where
  "Composed_create a x b =
     (let delayed = (getattr a ''assign'' ''='' = '':='' \<or> getattr b ''assign'' ''='' = '':='')
      in Composed (join '' '' [format_safe a, x, format_safe b]) (if delayed then '':='' else ''=''))"

text \<open>
  The operators of \<^verbatim>\<open>Symbolic\<close>: \<^verbatim>\<open>a + b\<close> is \<^verbatim>\<open>Composed.create(a, '+', b)\<close>
  when \<^verbatim>\<open>a\<close> is symbolic (\<^verbatim>\<open>__add__\<close>) and also when only \<^verbatim>\<open>b\<close> is
  (\<^verbatim>\<open>__radd__\<close>, after the left operand declined).
\<close>

definition binop :: "string \<Rightarrow> pyval \<Rightarrow> pyval \<Rightarrow> pyval" where
  "binop op a b = Composed_create a op b"

text \<open>The assignment symbol a \<^verbatim>\<open>Value\<close> carries (its attribute \<^verbatim>\<open>_assign\<close>).\<close>

definition marker :: "pyval \<Rightarrow> string" where
  "marker v = getattr v ''_assign'' ''=''"

text \<open>Python arithmetic on values.\<close>

fun repeat :: "nat \<Rightarrow> 'a list \<Rightarrow> 'a list" where
  "repeat 0 xs = []"
| "repeat (Suc n) xs = xs @ repeat n xs"

fun py_add :: "pyval \<Rightarrow> pyval \<Rightarrow> error + pyval" where
  "py_add a b =
     (if is_symbolic a \<or> is_symbolic b then Inr (binop ''+'' a b)
      else case (a, b) of
        (PInt x, PInt y) \<Rightarrow> Inr (PInt (x + y))
      | (PInt x, PDec y) \<Rightarrow> Inr (PDec (dec_add (Dec x 0) y))
      | (PDec x, PInt y) \<Rightarrow> Inr (PDec (dec_add x (Dec y 0)))
      | (PDec x, PDec y) \<Rightarrow> Inr (PDec (dec_add x y))
      | (PStr s, PStr t) \<Rightarrow> Inr (PStr (s @ t))
      | (PList xs, PList ys) \<Rightarrow> Inr (PList (xs @ ys))
      | _ \<Rightarrow> Inl TypeError)"

fun py_sub :: "pyval \<Rightarrow> pyval \<Rightarrow> error + pyval" where
  "py_sub a b =
     (if is_symbolic a \<or> is_symbolic b then Inr (binop ''-'' a b)
      else case (a, b) of
        (PInt x, PInt y) \<Rightarrow> Inr (PInt (x - y))
      | (PInt x, PDec y) \<Rightarrow> Inr (PDec (dec_sub (Dec x 0) y))
      | (PDec x, PInt y) \<Rightarrow> Inr (PDec (dec_sub x (Dec y 0)))
      | (PDec x, PDec y) \<Rightarrow> Inr (PDec (dec_sub x y))
      | _ \<Rightarrow> Inl TypeError)"

fun py_mul :: "pyval \<Rightarrow> pyval \<Rightarrow> error + pyval" where
  "py_mul a b =
     (if is_symbolic a \<or> is_symbolic b then Inr (binop ''*'' a b)
      else case (a, b) of
        (PInt x, PInt y) \<Rightarrow> Inr (PInt (x * y))
      | (PInt x, PDec y) \<Rightarrow> Inr (PDec (dec_mul (Dec x 0) y))
      | (PDec x, PInt y) \<Rightarrow> Inr (PDec (dec_mul x (Dec y 0)))
      | (PDec x, PDec y) \<Rightarrow> Inr (PDec (dec_mul x y))
      | (PStr s, PInt n) \<Rightarrow> Inr (PStr (repeat (nat n) s))
      | (PInt n, PStr s) \<Rightarrow> Inr (PStr (repeat (nat n) s))
      | (PList xs, PInt n) \<Rightarrow> Inr (PList (repeat (nat n) xs))
      | (PInt n, PList xs) \<Rightarrow> Inr (PList (repeat (nat n) xs))
      | _ \<Rightarrow> Inl TypeError)"

text \<open>\<^verbatim>\<open>abs(v)\<close> and \<^verbatim>\<open>int(math.ceil(v))\<close>.\<close>

fun py_abs :: "pyval \<Rightarrow> error + pyval" where
  "py_abs (PInt x) = Inr (PInt \<bar>x\<bar>)"
| "py_abs (PDec x) = Inr (PDec (dec_abs x))"
| "py_abs _ = Inl TypeError"

fun py_ceil :: "pyval \<Rightarrow> error + int" where
  "py_ceil (PInt x) = Inr x"
| "py_ceil (PDec x) = Inr (dec_ceil x)"
| "py_ceil _ = Inl TypeError"

text \<open>\<^verbatim>\<open>Decimal(v)\<close>\<close>

fun Decimal :: "pyval \<Rightarrow> error + dec" where
  "Decimal (PInt x) = Inr (Dec x 0)"
| "Decimal (PDec x) = Inr x"
| "Decimal (PStr s) = Inl Unmodelled"
| "Decimal (PList vs) = Inl Unmodelled"
| "Decimal _ = Inl TypeError"

text \<open>
  \<^verbatim>\<open>a == b\<close>. \<^verbatim>\<open>Value.__eq__\<close> compares the other operand with the stored
  \<^verbatim>\<open>value\<close>, so a \<^verbatim>\<open>Value\<close> object counts as its stored value on either side.
\<close>

definition str_eq :: "string \<Rightarrow> pyval \<Rightarrow> bool" where
  "str_eq s b =
     (case b of PStr t \<Rightarrow> s = t | Identifier v a \<Rightarrow> s = v | Composed v a \<Rightarrow> s = v
      | _ \<Rightarrow> False)"

fun py_eq :: "pyval \<Rightarrow> pyval \<Rightarrow> bool" and py_eq_list :: "pyval list \<Rightarrow> pyval list \<Rightarrow> bool" where
  "py_eq (PInt x) b =
     (case b of PInt y \<Rightarrow> x = y | PDec y \<Rightarrow> dec_eq (Dec x 0) y | _ \<Rightarrow> False)"
| "py_eq (PDec x) b =
     (case b of PInt y \<Rightarrow> dec_eq x (Dec y 0) | PDec y \<Rightarrow> dec_eq x y | _ \<Rightarrow> False)"
| "py_eq (PStr s) b = str_eq s b"
| "py_eq (Identifier v a) b = str_eq v b"
| "py_eq (Composed v a) b = str_eq v b"
| "py_eq (PList xs) b =
     (case b of PList ys \<Rightarrow> py_eq_list xs ys | Array ys a \<Rightarrow> py_eq_list xs ys | _ \<Rightarrow> False)"
| "py_eq (Array xs a) b =
     (case b of PList ys \<Rightarrow> py_eq_list xs ys | Array ys a \<Rightarrow> py_eq_list xs ys | _ \<Rightarrow> False)"
| "py_eq_list [] ys = (ys = [])"
| "py_eq_list (x # xs) ys =
     (case ys of [] \<Rightarrow> False | y # ys' \<Rightarrow> py_eq x y \<and> py_eq_list xs ys')"

section \<open>Nodes and sequences (madseq/types.py)\<close>

text \<open>
  A node of a document is an \<^verbatim>\<open>Element\<close>, a \<^verbatim>\<open>Text\<close> (name and type are
  \<^verbatim>\<open>None\<close>) or a \<^verbatim>\<open>Line\<close> (its type is the plain text \<^verbatim>\<open>line\<close>).
\<close>

datatype 'v node =
    ElementN "'v element"
  | TextN string
  | LineN "string option" "string list"

datatype 'v sequence = Sequence (elements: "'v node list") (preface: "'v node list")

definition head :: "'v sequence \<Rightarrow> error + 'v node" where
  "head s = (case elements s of [] \<Rightarrow> Inl IndexError | x # xs \<Rightarrow> Inr x)"

definition body :: "'v sequence \<Rightarrow> 'v node list" where
  "body s = butlast (tl (elements s))"

definition tail :: "'v sequence \<Rightarrow> error + 'v node" where
  "tail s = (case elements s of [] \<Rightarrow> Inl IndexError | x # xs \<Rightarrow> Inr (last (x # xs)))"

section \<open>Element transformation rules (madseq/transform.py)\<close>

text \<open>
  A selector is a plain dictionary read from the configuration; its values are
  \<^verbatim>\<open>None\<close>, booleans, integers or texts.
\<close>

datatype selval = SNone | SBool bool | SInt int | SStr string

type_synonym selector = "(string \<times> selval) list"

definition sel_in :: "string \<Rightarrow> selector \<Rightarrow> bool" where
  "sel_in key sel = (map_of sel key \<noteq> None)"

definition sel_get :: "selector \<Rightarrow> string \<Rightarrow> selval \<Rightarrow> selval" where
  "sel_get sel key dflt = (case map_of sel key of Some v \<Rightarrow> v | None \<Rightarrow> dflt)"

fun truthy :: "selval \<Rightarrow> bool" where
  "truthy SNone = False"
| "truthy (SBool b) = b"
| "truthy (SInt i) = (i \<noteq> 0)"
| "truthy (SStr s) = (s \<noteq> [])"

fun sel_str :: "selval \<Rightarrow> string" where
  "sel_str SNone = ''None''"
| "sel_str (SBool b) = (if b then ''True'' else ''False'')"
| "sel_str (SInt i) = str_int i"
| "sel_str (SStr s) = s"

text \<open>
  \<^verbatim>\<open>exclusive(mapping, *keys)\<close> returns whether at most one of the keys is in the
  mapping; it raises nothing.
\<close>

definition exclusive :: "selector \<Rightarrow> string list \<Rightarrow> bool" where
  "exclusive mapping keys = (length (filter (\<lambda>key. sel_in key mapping) keys) \<le> 1)"

text \<open>
  \<^verbatim>\<open>ElementTransform\<close>: the functions that \<^verbatim>\<open>__init__\<close> stores are named by the
  choice each one stands for.
\<close>

datatype matcher = MatchName selval | MatchType selval | MatchAll

datatype slicer = Density selval | SliceNum selval

datatype style = Uniform | Loop

record ElementTransform =
  match :: matcher
  use_at :: bool
  get_slice_num :: slicer
  makethin :: bool
  template :: bool
  distribution :: style

definition ElementTransform_init :: "selector \<Rightarrow> error + ElementTransform" where
  "ElementTransform_init selector =
     (let checked1 = exclusive selector [''name'', ''type''];
          m = (if sel_in ''name'' selector then MatchName (sel_get selector ''name'' SNone)
               else if sel_in ''type'' selector then MatchType (sel_get selector ''type'' SNone)
               else MatchAll);
          at = truthy (sel_get selector ''use_at'' (SBool True));
          checked2 = exclusive selector [''density'', ''slice''];
          sn = (if sel_in ''density'' selector then Density (sel_get selector ''density'' SNone)
                else SliceNum (sel_get selector ''slice'' (SInt 1)));
          thin = truthy (sel_get selector ''makethin'' (SBool False));
          templ = truthy (sel_get selector ''template'' (SBool False));
          st = sel_get selector ''style'' (SStr ''uniform'')
      in if st = SStr ''uniform''
         then Inr \<lparr>match = m, use_at = at, get_slice_num = sn, makethin = thin,
                   template = templ, distribution = Uniform\<rparr>
         else if st = SStr ''loop''
         then Inr \<lparr>match = m, use_at = at, get_slice_num = sn, makethin = thin,
                   template = templ, distribution = Loop\<rparr>
         else Inl ValueError)"

text \<open>
  \<^verbatim>\<open>elem.name == name\<close> and \<^verbatim>\<open>elem.base_type == type\<close> for a value from the
  selector: a \<^verbatim>\<open>stri\<close> compares the lowered texts, \<^verbatim>\<open>None\<close> equals only
  \<^verbatim>\<open>None\<close>, and a plain text equals only the same text.
\<close>

definition stri_matches :: "string option \<Rightarrow> selval \<Rightarrow> bool" where
  "stri_matches s v =
     (case s of None \<Rightarrow> v = SNone | Some t \<Rightarrow> lower t = lower (sel_str v))"

definition name_matches :: "name_text option \<Rightarrow> selval \<Rightarrow> bool" where
  "name_matches nm v =
     (case nm of
        None \<Rightarrow> v = SNone
      | Some (Stri t) \<Rightarrow> lower t = lower (sel_str v)
      | Some (Plain t) \<Rightarrow> v = SStr t)"

fun matches :: "matcher \<Rightarrow> pyval element \<Rightarrow> error + bool" where
  "matches (MatchName nm) elem = Inr (name_matches (name elem) nm)"
| "matches (MatchType ty) elem =
     bind_result (base_type elem) (\<lambda>bt. Inr (stri_matches bt ty))"
| "matches MatchAll elem = Inr True"

text \<open>\<^verbatim>\<open>_get_position\<close>\<close>

definition get_position ::
  "bool \<Rightarrow> pyval element \<Rightarrow> pyval \<Rightarrow> pyval \<Rightarrow> pyval \<Rightarrow> error + pyval" where
  "get_position at elem elem_len offset refer =
     (if at
      then (case getitem elem ''at'' of
              Inr a \<Rightarrow> bind_result (py_mul elem_len refer) (\<lambda>m. py_sub a m)
            | Inl (KeyError k) \<Rightarrow> Inr offset
            | Inl err \<Rightarrow> Inl err)
      else Inr offset)"

text \<open>
  \<^verbatim>\<open>_get_slice_num\<close>: \<^verbatim>\<open>int(ceil(abs(L * density)))\<close>, or the fixed number. A
  boolean density multiplies as 0 or 1; \<^verbatim>\<open>L * None\<close> is a \<^verbatim>\<open>TypeError\<close>.
\<close>

definition slice_num_of :: "slicer \<Rightarrow> pyval \<Rightarrow> error + selval" where
  "slice_num_of sn L =
     (case sn of
        SliceNum v \<Rightarrow> Inr v
      | Density d \<Rightarrow>
          bind_result
            (case d of
               SNone \<Rightarrow> Inl TypeError
             | SBool b \<Rightarrow> py_mul L (PInt (if b then 1 else 0))
             | SInt i \<Rightarrow> py_mul L (PInt i)
             | SStr s \<Rightarrow> py_mul L (PStr s))
            (\<lambda>p. bind_result (py_abs p) (\<lambda>a. bind_result (py_ceil a) (\<lambda>n. Inr (SInt n)))))"

text \<open>
  The number of slices as an integer, where \<^verbatim>\<open>slice\<close> uses it as a number: a text
  raises \<^verbatim>\<open>TypeError\<close> in the division, \<^verbatim>\<open>True\<close> counts as 1 (the values that
  are false were replaced by 1 before).
\<close>

fun slice_count :: "selval \<Rightarrow> error + int" where
  "slice_count (SInt n) = Inr n"
| "slice_count (SBool b) = Inr (if b then 1 else 0)"
| "slice_count (SStr s) = Inl TypeError"
| "slice_count SNone = Inl TypeError"

text \<open>\<^verbatim>\<open>rescale_thick\<close>\<close>

definition rescale_thick :: "pyval element \<Rightarrow> pyval \<Rightarrow> error + pyval element" where
  "rescale_thick elem ratio =
     (if py_eq ratio (PInt 1) then Inr elem
      else
        let scaled = copy elem in
        bind_result (getitem elem ''L'') (\<lambda>l.
        bind_result (py_mul l ratio) (\<lambda>l'.
        let scaled = setitem scaled ''L'' l' in
        bind_result (base_type scaled) (\<lambda>bt.
        if stri_eq bt (Some ''sbend'')
        then bind_result (getitem scaled ''angle'') (\<lambda>a.
             bind_result (py_mul a ratio) (\<lambda>a'.
             Inr (setitem scaled ''angle'' a')))
        else Inr scaled))))"

text \<open>\<^verbatim>\<open>rescale_makethin\<close>\<close>

definition rescale_makethin :: "pyval element \<Rightarrow> pyval \<Rightarrow> error + pyval element" where
  "rescale_makethin elem ratio =
     bind_result (base_type elem) (\<lambda>bt.
     if \<not> (stri_eq bt (Some ''sbend'') \<or> stri_eq bt (Some ''quadrupole'')
            \<or> stri_eq bt (Some ''solenoid''))
     then Inr elem
     else if stri_eq bt (Some ''solenoid'')
     then
       let elem = copy elem in
       bind_result (getitem elem ''KS'') (\<lambda>ks.
       bind_result (getitem elem ''L'') (\<lambda>l.
       bind_result (py_mul ks l) (\<lambda>ksl.
       bind_result (py_mul ksl ratio) (\<lambda>ksi.
       let elem = setitem elem ''ksi'' ksi in
       bind_result (getitem elem ''L'') (\<lambda>l.
       bind_result (py_mul l ratio) (\<lambda>lrad.
       let elem = setitem elem ''lrad'' lrad;
           elem = setitem elem ''L'' (PInt 0)
       in Inr elem))))))
     else
       bind_result (all_args elem) (\<lambda>merged.
       let elem = Element (stri (name elem)) (Some ''multipole'') merged NoBase in
       bind_result
         (if stri_eq bt (Some ''sbend'')
          then
            bind_result (pop elem ''angle'' (None :: unit option)) (\<lambda>(a, elem).
            bind_result (case a of Inl v \<Rightarrow> py_mul v ratio | Inr u \<Rightarrow> Inl TypeError) (\<lambda>knl.
            let elem = setitem elem ''KNL'' (PList [knl]) in
            bind_result (pop elem ''HGAP'' (Some ())) (\<lambda>(h, elem).
            Inr elem)))
          else if stri_eq bt (Some ''quadrupole'')
          then
            bind_result
              (bind_result (contains elem ''K1'') (\<lambda>has_k1.
               if has_k1
               then
                 bind_result (getitem elem ''K1'') (\<lambda>k1.
                 bind_result (getitem elem ''L'') (\<lambda>l.
                 bind_result (py_mul k1 l) (\<lambda>k1l.
                 bind_result (py_mul k1l ratio) (\<lambda>v.
                 delitem (setitem elem ''KNL'' (PList [PInt 0, v])) ''K1''))))
               else Inr elem))
              (\<lambda>elem.
               bind_result (contains elem ''K1S'') (\<lambda>has_k1s.
               if has_k1s
               then
                 bind_result (getitem elem ''K1S'') (\<lambda>k1s.
                 bind_result (getitem elem ''L'') (\<lambda>l.
                 bind_result (py_mul k1s l) (\<lambda>k1sl.
                 bind_result (py_mul k1sl ratio) (\<lambda>v.
                 delitem (setitem elem ''KSL'' (PList [PInt 0, v])) ''K1S''))))
               else Inr elem))
          else Inr elem)
         (\<lambda>elem.
          bind_result (contains elem ''L'') (\<lambda>has_l.
          if has_l
          then
            bind_result (pop elem ''L'' (None :: unit option)) (\<lambda>(l, elem).
            bind_result (case l of Inl v \<Rightarrow> py_mul v ratio | Inr u \<Rightarrow> Inl TypeError) (\<lambda>lrad.
            Inr (setitem elem ''lrad'' lrad)))
          else Inr elem))))"

text \<open>
  The template choice of \<^verbatim>\<open>__init__\<close>: \<^verbatim>\<open>_maketempl\<close> and \<^verbatim>\<open>_stripelem\<close>.
\<close>

definition maketempl :: "bool \<Rightarrow> pyval element \<Rightarrow> pyval element list" where
  "maketempl templ elem = (if templ then [elem] else [])"

definition stripelem :: "bool \<Rightarrow> pyval element \<Rightarrow> pyval element" where
  "stripelem templ elem =
     (if templ then Element None (map_option text_of (name elem)) [] (ElemBase elem) else elem)"

text \<open>
  \<^verbatim>\<open>uniform_slice_distribution\<close>: one copy per index in \<^verbatim>\<open>range(slice_num)\<close>,
  in order; the first index whose arithmetic raises ends the generator with that error.
\<close>

definition uniform_slice ::
  "pyval element \<Rightarrow> pyval \<Rightarrow> pyval \<Rightarrow> int \<Rightarrow> dec \<Rightarrow> int \<Rightarrow> error + pyval node" where
  "uniform_slice elem offset refer slice_num slice_len slice_idx =
     (let slice = copy elem in
      bind_result (py_add (PInt slice_idx) refer) (\<lambda>ir.
      bind_result (py_mul ir (PDec slice_len)) (\<lambda>d.
      bind_result (py_add offset d) (\<lambda>at.
      let slice = setitem slice ''at'' at in
      if truthy_name (name slice) \<and> slice_num > 1
      then Inr (ElementN (Element (Some (Plain (name_str (name elem) @ ''..'' @ str_int slice_idx)))
                           (type slice) (args slice) (base slice)))
      else Inr (ElementN slice)))))"

fun collect :: "(error + 'a) list \<Rightarrow> error + 'a list" where
  "collect [] = Inr []"
| "collect (r # rs) =
     bind_result r (\<lambda>x. bind_result (collect rs) (\<lambda>xs. Inr (x # xs)))"

definition uniform_slice_distribution ::
  "pyval element \<Rightarrow> pyval \<Rightarrow> pyval \<Rightarrow> int \<Rightarrow> dec \<Rightarrow> error + pyval node list" where
  "uniform_slice_distribution elem offset refer slice_num slice_len =
     collect (map (\<lambda>i. uniform_slice elem offset refer slice_num slice_len (int i))
                  [0..<nat slice_num])"

text \<open>\<^verbatim>\<open>uniform_slice_loop\<close>; the loop head prints \<^verbatim>\<open>slice_num\<close> as it was given.\<close>

definition uniform_slice_loop ::
  "pyval element \<Rightarrow> pyval \<Rightarrow> pyval \<Rightarrow> selval \<Rightarrow> dec \<Rightarrow> error + pyval node list" where
  "uniform_slice_loop elem offset refer slice_num slice_len =
     (let slice = copy elem;
          slice = Element None (type slice) (args slice) (base slice) in
      bind_result (py_add (Identifier ''i'' ''='') refer) (\<lambda>ir.
      bind_result (py_mul ir (PDec slice_len)) (\<lambda>d.
      bind_result (py_add offset d) (\<lambda>at.
      let slice = setitem slice ''at'' at in
      Inr [TextN ''i = 0;'',
           TextN (''while (i < '' @ sel_str slice_num @ '') {''),
           ElementN slice,
           TextN ''i = i + 1;'',
           TextN ''}'']))))"

text \<open>
  \<^verbatim>\<open>ElementTransform.slice\<close>, together with the run of the generator it returns: the
  templates, the nodes of the slices and the offset after the element. The sum
  \<^verbatim>\<open>offset + elem_len\<close> is computed when \<^verbatim>\<open>slice\<close> returns, before the caller
  runs the generator.
\<close>

definition slice ::
  "ElementTransform \<Rightarrow> pyval element \<Rightarrow> pyval \<Rightarrow> pyval
     \<Rightarrow> error + (pyval element list \<times> pyval node list \<times> pyval)" where
  "slice t elem offset refer =
     bind_result (get elem ''L'' (PInt 0)) (\<lambda>elem_len.
     bind_result (get_position (use_at t) elem elem_len offset refer) (\<lambda>offset.
     bind_result (slice_num_of (get_slice_num t) elem_len) (\<lambda>sn.
     let slice_num = (if truthy sn then sn else SInt 1) in
     bind_result (Decimal elem_len) (\<lambda>dl.
     bind_result (slice_count slice_num) (\<lambda>n.
     bind_result (dec_div dl (Dec n 0)) (\<lambda>slice_len.
     bind_result (dec_div (Dec 1 0) (Dec n 0)) (\<lambda>ratio.
     bind_result ((if makethin t then rescale_makethin else rescale_thick) elem (PDec ratio))
       (\<lambda>scaled.
     let templ = maketempl (template t) scaled;
         elem = stripelem (template t) scaled in
     bind_result (py_add offset elem_len) (\<lambda>new_offset.
     bind_result
       (case distribution t of
          Uniform \<Rightarrow> uniform_slice_distribution elem offset refer n slice_len
        | Loop \<Rightarrow> uniform_slice_loop elem offset refer slice_num slice_len) (\<lambda>elems.
     Inr (templ, elems, new_offset)))))))))))"

section \<open>Sequence transformation (madseq/transform.py)\<close>

text \<open>\<^verbatim>\<open>SequenceTransform._offsets\<close>\<close>

definition offsets :: "pyval dicti" where
  "offsets = dicti_of [(''entry'', PInt 0), (''centre'', PDec (Dec 5 (- 1))), (''exit'', PInt 1)]"

text \<open>\<^verbatim>\<open>SequenceTransform.__init__\<close>: the rules of the list, then the rule of the empty selector.\<close>

definition SequenceTransform_init :: "selector list \<Rightarrow> error + ElementTransform list" where
  "SequenceTransform_init slicing =
     bind_result (collect (map ElementTransform_init slicing)) (\<lambda>ts.
     bind_result (ElementTransform_init []) (\<lambda>t. Inr (ts @ [t])))"

text \<open>
  The local function \<^verbatim>\<open>transform\<close> of \<^verbatim>\<open>__call__\<close>: the element's base becomes
  \<^verbatim>\<open>defs.get(elem.type)\<close>, and the first rule that matches slices it. When no rule
  matches the function returns \<^verbatim>\<open>None\<close>, and unpacking that raises
  \<^verbatim>\<open>TypeError\<close>.
\<close>

fun first_match ::
  "ElementTransform list \<Rightarrow> pyval element \<Rightarrow> pyval \<Rightarrow> pyval
     \<Rightarrow> error + (pyval element list \<times> pyval node list \<times> pyval)" where
  "first_match [] elem offset refer = Inl TypeError"
| "first_match (t # ts) elem offset refer =
     bind_result (matches (match t) elem) (\<lambda>m.
     if m then slice t elem offset refer
     else first_match ts elem offset refer)"

definition defs_get :: "pyval element dicti \<Rightarrow> string option \<Rightarrow> pyval base" where
  "defs_get defs ty =
     (case dicti_get defs (str_opt ty) of None \<Rightarrow> NoBase | Some e \<Rightarrow> ElemBase e)"

definition transform ::
  "ElementTransform list \<Rightarrow> pyval element dicti \<Rightarrow> pyval \<Rightarrow> pyval element \<Rightarrow> pyval
     \<Rightarrow> error + (pyval element list \<times> pyval node list \<times> pyval)" where
  "transform ts defs refer elem offset =
     (let elem = (if truthy_str (type elem)
                  then Element (name elem) (type elem) (args elem) (defs_get defs (type elem))
                  else elem)
      in first_match ts elem offset refer)"

text \<open>
  A \<^verbatim>\<open>Line\<close> in the body has a type, so it is handed to the rules as well. Its
  name is a plain text, which a name rule compares as it is; a type rule reads
  \<^verbatim>\<open>base_type\<close> and a matching rule calls \<^verbatim>\<open>get\<close>, which a \<^verbatim>\<open>Line\<close>
  does not have.
\<close>

fun first_match_line :: "ElementTransform list \<Rightarrow> string option \<Rightarrow> error" where
  "first_match_line [] nm = TypeError"
| "first_match_line (t # ts) nm =
     (case match t of
        MatchName v \<Rightarrow>
          (if (case nm of None \<Rightarrow> v = SNone | Some s \<Rightarrow> v = SStr s) then AttributeError
           else first_match_line ts nm)
      | MatchType v \<Rightarrow> AttributeError
      | MatchAll \<Rightarrow> AttributeError)"

text \<open>
  The loop over the body: the accumulated templates, elements and the position. A
  \<^verbatim>\<open>Text\<close> has no type and is appended as it is.
\<close>

fun body_loop ::
  "ElementTransform list \<Rightarrow> pyval element dicti \<Rightarrow> pyval \<Rightarrow> pyval node list
     \<Rightarrow> pyval element list \<Rightarrow> pyval node list \<Rightarrow> pyval
     \<Rightarrow> error + (pyval element list \<times> pyval node list \<times> pyval)" where
  "body_loop ts defs refer [] templates elems position = Inr (templates, elems, position)"
| "body_loop ts defs refer (nd # nds) templates elems position =
     (case nd of
        TextN txt \<Rightarrow> body_loop ts defs refer nds templates (elems @ [nd]) position
      | LineN nm els \<Rightarrow> Inl (first_match_line ts nm)
      | ElementN e \<Rightarrow>
          (if truthy_str (type e)
           then bind_result (transform ts defs refer e position) (\<lambda>(templ, el, position).
                body_loop ts defs refer nds (templates @ templ) (elems @ el) position)
           else body_loop ts defs refer nds templates (elems @ [nd]) position)
)"

text \<open>
  \<^verbatim>\<open>SequenceTransform.__call__\<close> on a \<^verbatim>\<open>Sequence\<close>. The head is copied, the
  addressing style is looked up under \<^verbatim>\<open>str(head.get('refer', 'centre'))\<close>, the body
  is transformed, and the copy of the head gets the final position as its \<^verbatim>\<open>L\<close>.
  A head that is a \<^verbatim>\<open>Text\<close> or a \<^verbatim>\<open>Line\<close> has no \<^verbatim>\<open>copy\<close>.
\<close>

definition refer_of :: "pyval element \<Rightarrow> error + pyval" where
  "refer_of hd_elem =
     bind_result (get hd_elem ''refer'' (PStr ''centre'')) (\<lambda>r.
     case dicti_get offsets (py_str r) of
       Some v \<Rightarrow> Inr v
     | None \<Rightarrow> Inl (KeyError (py_str r)))"

definition SequenceTransform_call ::
  "ElementTransform list \<Rightarrow> pyval sequence \<Rightarrow> pyval element dicti \<Rightarrow> error + pyval sequence" where
  "SequenceTransform_call ts node defs =
     bind_result (head node) (\<lambda>h.
     case h of
       ElementN he \<Rightarrow>
         let hd_elem = copy he; bdy = body node in
         bind_result (tail node) (\<lambda>tl_node.
         bind_result (refer_of hd_elem) (\<lambda>refer.
         bind_result (body_loop ts defs refer bdy [] [] (PInt 0)) (\<lambda>(templates, elems, position).
         let hd_elem = setitem hd_elem ''L'' position;
             templates =
               (if templates \<noteq> []
                then TextN (''! Template elements for '' @ name_str (name hd_elem) @ '':'')
                     # map ElementN templates @ [TextN []]
                else [])
         in Inr (Sequence ([ElementN hd_elem] @ elems @ [tl_node]) templates))))
     | _ \<Rightarrow> Inl AttributeError)"

section \<open>Detection of sequences (madseq/types.py, Sequence.detect)\<close>

text \<open>The values \<^verbatim>\<open>Sequence.detect\<close> yields: a sequence, or a node as it is.\<close>

datatype 'v item = SequenceI "'v sequence" | NodeI "'v node"

definition node_name :: "'v node \<Rightarrow> name_text option" where
  "node_name nd =
     (case nd of ElementN e \<Rightarrow> name e | TextN txt \<Rightarrow> None
      | LineN nm els \<Rightarrow> map_option Plain nm)"

text \<open>
  \<^verbatim>\<open>elem.type == t\<close> for a text \<^verbatim>\<open>t\<close>: the type of an element is a
  \<^verbatim>\<open>stri\<close> or \<^verbatim>\<open>None\<close>, that of a \<^verbatim>\<open>Text\<close> is \<^verbatim>\<open>None\<close>, that of a
  \<^verbatim>\<open>Line\<close> is the plain text \<^verbatim>\<open>line\<close>.
\<close>

definition node_type_is :: "'v node \<Rightarrow> string \<Rightarrow> bool" where
  "node_type_is nd t =
     (case nd of
        ElementN e \<Rightarrow> stri_eq (type e) (Some t)
      | TextN txt \<Rightarrow> False
      | LineN nm els \<Rightarrow> ''line'' = t)"

text \<open>\<^verbatim>\<open>by_name = dicti((str(el.name), el) for el in elements if el.name)\<close>\<close>

definition by_name_of :: "'v node list \<Rightarrow> 'v node dicti" where
  "by_name_of elems =
     dicti_of (map (\<lambda>el. (name_str (node_name el), el))
                   (filter (\<lambda>el. truthy_name (node_name el)) elems))"

definition dicti_setdefault :: "'v dicti \<Rightarrow> string \<Rightarrow> 'v \<Rightarrow> 'v dicti" where
  "dicti_setdefault d key v = (if dicti_contains d key then d else dicti_set d key v)"

text \<open>
  The inner loop \<^verbatim>\<open>for elem in it: seq.append(elem); if elem.type == 'endsequence':
  break\<close>: the sequence so far, the last value of \<^verbatim>\<open>elem\<close> and what is left of the
  iterator.
\<close>

fun detect_inner :: "'v node list \<Rightarrow> 'v node \<Rightarrow> 'v node list \<Rightarrow> 'v node list \<times> 'v node \<times> 'v node list" where
  "detect_inner seq elem [] = (seq, elem, [])"
| "detect_inner seq elem (e # it) =
     (if node_type_is e ''endsequence'' then (seq @ [e], e, it)
      else detect_inner (seq @ [e]) e it)"

lemma detect_inner_rest_length:
  "length (snd (snd (detect_inner seq elem it))) \<le> length it"
  by (induction it arbitrary: seq elem) (auto simp: le_Suc_eq)

text \<open>
  What a LINE puts into its sequence for one element name: the named node itself (inline),
  or an unnamed element of that type whose base is the named node. Only elements and lines
  have names.
\<close>

definition as_base :: "'v node \<Rightarrow> 'v base" where
  "as_base nd = (case nd of ElementN e \<Rightarrow> ElemBase e | LineN nm els \<Rightarrow> LineBase nm els
                 | TextN txt \<Rightarrow> NoBase)"

definition line_member :: "pyval node dicti \<Rightarrow> bool \<Rightarrow> string \<Rightarrow> error + pyval node" where
  "line_member by_name inline el_name =
     (case dicti_get by_name el_name of
        None \<Rightarrow> Inl (KeyError el_name)
      | Some nd \<Rightarrow>
          if inline then Inr nd
          else Inr (ElementN (Element None (Some el_name) [] (as_base nd))))"

text \<open>
  The outer loop over the iterator. The generator fails when the \<^verbatim>\<open>assert\<close> after
  the inner loop fails, when a name of a LINE is not in \<^verbatim>\<open>by_name\<close>, and when the
  node of type \<^verbatim>\<open>line\<close> is an element, which has no attribute \<^verbatim>\<open>elems\<close>.
\<close>

function detect_loop :: "pyval node dicti \<Rightarrow> bool \<Rightarrow> pyval node list \<Rightarrow> error + pyval item list" where
  "detect_loop by_name inline [] = Inr []"
| "detect_loop by_name inline (elem # it) =
     (if node_type_is elem ''sequence''
      then
        let elem = (case elem of
                      ElementN e \<Rightarrow>
                        ElementN (Element (name e) (type e)
                                    (dicti_setdefault (args e) ''refer'' (PStr ''entry'')) (base e))
                    | _ \<Rightarrow> elem);
            r = detect_inner [elem] elem it
        in if node_type_is (fst (snd r)) ''endsequence''
           then bind_result (detect_loop by_name inline (snd (snd r)))
                  (\<lambda>out. Inr (SequenceI (Sequence (fst r) []) # out))
           else Inl AssertionError
      else if node_type_is elem ''line''
      then
        (case elem of
           LineN nm els \<Rightarrow>
             bind_result (collect (map (line_member by_name inline) els)) (\<lambda>members.
             bind_result (detect_loop by_name inline it) (\<lambda>out.
             Inr (SequenceI
                    (Sequence
                       ([ElementN (Element (map_option Stri nm) (Some ''sequence'')
                                     (dicti_of [(''refer'', PStr ''entry'')]) NoBase)]
                        @ members
                        @ [ElementN (Element None (Some ''endsequence'') [] NoBase)]) [])
                  # out)))
         | _ \<Rightarrow> Inl AttributeError)
      else bind_result (detect_loop by_name inline it) (\<lambda>out. Inr (NodeI elem # out)))"
  by pat_completeness auto
termination
  by (relation "measure (\<lambda>(by_name, inline, it). length it)")
     (auto simp: detect_inner_rest_length le_imp_less_Suc)

text \<open>\<^verbatim>\<open>Sequence.detect(elements, inline)\<close>, run to its end.\<close>

definition detect :: "pyval node list \<Rightarrow> bool \<Rightarrow> error + pyval item list" where
  "detect elems inline = detect_loop (by_name_of elems) inline elems"

section \<open>Lengths and sums\<close>

text \<open>
  The element as the transformation sees it: its base is \<^verbatim>\<open>defs.get(elem.type)\<close>.
  Its length is \<^verbatim>\<open>elem.get('L', 0)\<close>, and \<^verbatim>\<open>sum\<close> adds the lengths from the
  left, starting at the given value.
\<close>

definition rebased :: "pyval element dicti \<Rightarrow> pyval element \<Rightarrow> pyval element" where
  "rebased defs e = Element (name e) (type e) (args e) (defs_get defs (type e))"

definition length_of :: "pyval element dicti \<Rightarrow> pyval element \<Rightarrow> error + pyval" where
  "length_of defs e = get (rebased defs e) ''L'' (PInt 0)"




section \<open>Positions of the elements of a body\<close>

text \<open>
  The rule that transforms an element: the first rule of the list whose \<^verbatim>\<open>match\<close> is
  true (the loop \<^verbatim>\<open>for t in self._transforms: if t.match(elem)\<close>).
\<close>

fun rule_of :: "ElementTransform list \<Rightarrow> pyval element \<Rightarrow> error + ElementTransform" where
  "rule_of [] elem = Inl TypeError"
| "rule_of (t # ts) elem =
     bind_result (matches (match t) elem) (\<lambda>m. if m then Inr t else rule_of ts elem)"

text \<open>
  The entry offset of an element when the elements before it end at \<^verbatim>\<open>pos\<close>: what
  \<^verbatim>\<open>_get_position\<close> of its rule returns, that is \<^verbatim>\<open>at - L * refer\<close> when the
  rule uses \<^verbatim>\<open>at\<close> and the element has one, and \<^verbatim>\<open>pos\<close> otherwise. Its end is
  its entry offset plus its length.
\<close>

definition entry_offset ::
  "ElementTransform list \<Rightarrow> pyval element dicti \<Rightarrow> pyval \<Rightarrow> pyval element \<Rightarrow> pyval
     \<Rightarrow> error + pyval" where
  "entry_offset ts defs refer e pos =
     bind_result (rule_of ts (rebased defs e)) (\<lambda>t.
     bind_result (length_of defs e) (\<lambda>l.
     get_position (use_at t) (rebased defs e) l pos refer))"

definition end_of ::
  "ElementTransform list \<Rightarrow> pyval element dicti \<Rightarrow> pyval \<Rightarrow> pyval element \<Rightarrow> pyval
     \<Rightarrow> error + pyval" where
  "end_of ts defs refer e pos =
     bind_result (entry_offset ts defs refer e pos) (\<lambda>off.
     bind_result (length_of defs e) (\<lambda>l. py_add off l))"

text \<open>The end of the last element of a list, \<^verbatim>\<open>pos\<close> for the empty list.\<close>

fun end_position ::
  "ElementTransform list \<Rightarrow> pyval element dicti \<Rightarrow> pyval \<Rightarrow> pyval element list \<Rightarrow> pyval
     \<Rightarrow> error + pyval" where
  "end_position ts defs refer [] pos = Inr pos"
| "end_position ts defs refer (e # es) pos =
     bind_result (end_of ts defs refer e pos) (\<lambda>p. end_position ts defs refer es p)"

text \<open>
  A list of elements is contiguous from \<^verbatim>\<open>pos\<close> when each element enters where the
  one before it ends: its entry offset is the sum of \<^verbatim>\<open>pos\<close> and the lengths before
  it. This holds in particular when no \<^verbatim>\<open>at\<close> is used.
\<close>

fun contiguous ::
  "ElementTransform list \<Rightarrow> pyval element dicti \<Rightarrow> pyval \<Rightarrow> pyval element list \<Rightarrow> pyval
     \<Rightarrow> bool" where
  "contiguous ts defs refer [] pos = True"
| "contiguous ts defs refer (e # es) pos =
     (entry_offset ts defs refer e pos = Inr pos
      \<and> (case bind_result (length_of defs e) (py_add pos) of
            Inr p \<Rightarrow> contiguous ts defs refer es p
          | Inl err \<Rightarrow> False))"
section \<open>Argument lookup through the base chain\<close>

declare py_add.simps [simp del] py_sub.simps [simp del] py_mul.simps [simp del]

lemma bind_result_simps [simp]:
  "bind_result (Inl err) f = Inl err"
  "bind_result (Inr x) f = f x"
  by (simp_all add: bind_result_def)

lemma lower_simps [simp]:
  "lower [] = []"
  "lower (c # cs) = lower_char c # lower cs"
  by (simp_all add: lower_def)

lemma chain_nonempty [simp]: "chain e \<noteq> []"
  by (cases e) simp

lemma getitem_chain:
  "getitem e key =
     (case find (\<lambda>l. dicti_contains (args l) key) (chain e) of
        Some l \<Rightarrow> Inr (the (dicti_get (args l) key))
      | None \<Rightarrow> (case base (last (chain e)) of
                   LineBase nm els \<Rightarrow> Inl TypeError
                 | _ \<Rightarrow> Inl (KeyError key)))"
proof (induction e key rule: getitem.induct)
  case (1 n t a b key)
  show ?case
  proof (cases "dicti_get a key")
    case None
    then show ?thesis
      using 1 by (cases b) (auto simp: dicti_contains_def split: option.splits)
  next
    case (Some v)
    then show ?thesis by (simp add: dicti_contains_def)
  qed
qed

text \<open>
  C8. Lookup returns the element's own argument when the key is among its own
  arguments, and otherwise is the lookup in the base element (a \<^verbatim>\<open>KeyError\<close> for
  \<^verbatim>\<open>__getitem__\<close>, the default for \<^verbatim>\<open>get\<close>, when there is no base). For
  the chain base \<^verbatim>\<open>{a:'a0',b:'b0',c:'c0'}\<close>, mid \<^verbatim>\<open>{a:'a1',d:'d1'}\<close> on base,
  leaf \<^verbatim>\<open>{a:'a2'}\<close> on mid, the leaf gives a = a2, b = b0, c = c0, d = d1.
\<close>

theorem lookup_own_then_base:
  "(dicti_get a key = Some v \<longrightarrow>
      getitem (Element n t a b) key = Inr v \<and> get (Element n t a b) key dflt = Inr v)
   \<and> (dicti_get a key = None \<longrightarrow>
      getitem (Element n t a (ElemBase be)) key = getitem be key
      \<and> get (Element n t a (ElemBase be)) key dflt = get be key dflt
      \<and> getitem (Element n t a NoBase) key = Inl (KeyError key)
      \<and> get (Element n t a NoBase) key dflt = Inr dflt)
   \<and> (let el0 = Element None None (dicti_of [(''a'', ''a0''), (''b'', ''b0''), (''c'', ''c0'')]) NoBase;
           el1 = Element None None (dicti_of [(''a'', ''a1''), (''d'', ''d1'')]) (ElemBase el0);
           el2 = Element None None (dicti_of [(''a'', ''a2'')]) (ElemBase el1)
       in getitem el2 ''a'' = Inr ''a2'' \<and> getitem el2 ''b'' = Inr ''b0''
          \<and> getitem el2 ''c'' = Inr ''c0'' \<and> getitem el2 ''d'' = Inr ''d1''
          \<and> get el2 ''a'' ''x'' = Inr ''a2'' \<and> get el2 ''b'' ''x'' = Inr ''b0''
          \<and> get el2 ''c'' ''x'' = Inr ''c0'' \<and> get el2 ''d'' ''x'' = Inr ''d1'')"
proof (intro conjI impI)
  show "(let el0 = Element None None (dicti_of [(''a'', ''a0''), (''b'', ''b0''), (''c'', ''c0'')]) NoBase;
           el1 = Element None None (dicti_of [(''a'', ''a1''), (''d'', ''d1'')]) (ElemBase el0);
           el2 = Element None None (dicti_of [(''a'', ''a2'')]) (ElemBase el1)
       in getitem el2 ''a'' = Inr ''a2'' \<and> getitem el2 ''b'' = Inr ''b0''
          \<and> getitem el2 ''c'' = Inr ''c0'' \<and> getitem el2 ''d'' = Inr ''d1''
          \<and> get el2 ''a'' ''x'' = Inr ''a2'' \<and> get el2 ''b'' ''x'' = Inr ''b0''
          \<and> get el2 ''c'' ''x'' = Inr ''c0'' \<and> get el2 ''d'' ''x'' = Inr ''d1'')"
    by (simp add: Let_def dicti_of_def dicti_update_def dicti_set_def dicti_get_def get_def
        lower_char_def)
qed (simp_all add: get_def)

theorem lookup_own_then_base_witness:
  "getitem (Element None (Some ''drift'') (dicti_of [(''L'', 2::int)])
             (ElemBase (Element (Some (Stri ''d0'')) (Some ''drift'') (dicti_of [(''L'', 1), (''K'', 5)]) NoBase))) ''l''
     = Inr 2
   \<and> getitem (Element None (Some ''drift'') (dicti_of [(''L'', 2::int)])
             (ElemBase (Element (Some (Stri ''d0'')) (Some ''drift'') (dicti_of [(''L'', 1), (''K'', 5)]) NoBase))) ''k''
     = Inr 5"
proof -
  let ?b = "Element (Some (Stri ''d0'')) (Some ''drift'') (dicti_of [(''L'', 1::int), (''K'', 5)]) NoBase"
  have own: "dicti_get (dicti_of [(''L'', 2::int)]) ''l'' = Some 2"
    by (simp add: dicti_of_def dicti_update_def dicti_set_def dicti_get_def lower_char_def)
  have inh: "dicti_get (dicti_of [(''L'', 2::int)]) ''k'' = None"
    by (simp add: dicti_of_def dicti_update_def dicti_set_def dicti_get_def lower_char_def)
  have b: "getitem ?b ''k'' = Inr 5"
    by (simp add: dicti_of_def dicti_update_def dicti_set_def dicti_get_def lower_char_def)
  from lookup_own_then_base [of "dicti_of [(''L'', 2::int)]" "''l''" 2 None "Some ''drift''" "ElemBase ?b"]
    own have 1: "getitem (Element None (Some ''drift'') (dicti_of [(''L'', 2::int)]) (ElemBase ?b)) ''l'' = Inr 2"
    by blast
  from lookup_own_then_base [of "dicti_of [(''L'', 2::int)]" "''k''" _ None "Some ''drift''" _ _ ?b]
    inh have "getitem (Element None (Some ''drift'') (dicti_of [(''L'', 2::int)]) (ElemBase ?b)) ''k''
      = getitem ?b ''k''"
    by blast
  with b 1 show ?thesis by simp
qed

section \<open>Element equality\<close>

text \<open>
  C10. \<^verbatim>\<open>Element.__eq__\<close> is exactly the conjunction of the equality of the names, of
  the types and of the own arguments; the bases do not occur in it. So two unnamed
  \<^verbatim>\<open>q\<close> elements without own arguments are equal although their bases give them
  L = 1 and L = 2 and their merged arguments differ, while elements that differ in the
  name, in the type, in the value of an own argument or in the set of own keys are not
  equal, whatever their bases. Names and types that are \<^verbatim>\<open>stri\<close> compare without
  regard to case; the plain names of two slices compare exactly.
\<close>

theorem eq_ignores_base:
  "elem_eq veq (Element n t a b) (Element n' t' a' b')
     = (name_eq n n' \<and> stri_eq t t' \<and> dicti_eq veq a a')
   \<and> (let b1 = Element (Some (Stri ''q'')) (Some ''quadrupole'') (dicti_of [(''L'', 1::int)]) NoBase;
           b2 = Element (Some (Stri ''q'')) (Some ''quadrupole'') (dicti_of [(''L'', 2::int)]) NoBase;
           x = Element None (Some ''q'') [] (ElemBase b1);
           y = Element None (Some ''q'') [] (ElemBase b2)
       in elem_eq (=) x y \<and> getitem x ''L'' = Inr 1 \<and> getitem y ''L'' = Inr 2
          \<and> all_args x = Inr [(''l'', 1)] \<and> all_args y = Inr [(''l'', 2)]
          \<and> \<not> dicti_eq (=) [(''l'', 1::int)] [(''l'', 2)]
          \<and> \<not> elem_eq (=) b1 b2
          \<and> \<not> elem_eq (=) x (Element (Some (Stri ''x'')) (Some ''q'') [] (ElemBase b1))
          \<and> \<not> elem_eq (=) x (Element None (Some ''p'') [] (ElemBase b1))
          \<and> \<not> elem_eq (=) x (Element None (Some ''q'') (dicti_of [(''K1'', 3)]) (ElemBase b1))
          \<and> elem_eq (=) (Element (Some (Stri ''Q1'')) (Some ''QUADRUPOLE'') [] NoBase)
                         (Element (Some (Stri ''q1'')) (Some ''quadrupole'') [] (ElemBase b1))
          \<and> elem_eq (=) (Element (Some (Plain ''Q..0'')) (Some ''q'') [] NoBase)
                         (Element (Some (Stri ''q..0'')) (Some ''q'') [] NoBase)
          \<and> \<not> elem_eq (=) (Element (Some (Plain ''Q..0'')) (Some ''q'') [] NoBase)
                           (Element (Some (Plain ''q..0'')) (Some ''q'') [] NoBase))"
proof (intro conjI)
  show "elem_eq veq (Element n t a b) (Element n' t' a' b')
     = (name_eq n n' \<and> stri_eq t t' \<and> dicti_eq veq a a')"
    by (simp add: elem_eq_def)
  show "(let b1 = Element (Some (Stri ''q'')) (Some ''quadrupole'') (dicti_of [(''L'', 1::int)]) NoBase;
           b2 = Element (Some (Stri ''q'')) (Some ''quadrupole'') (dicti_of [(''L'', 2::int)]) NoBase;
           x = Element None (Some ''q'') [] (ElemBase b1);
           y = Element None (Some ''q'') [] (ElemBase b2)
       in elem_eq (=) x y \<and> getitem x ''L'' = Inr 1 \<and> getitem y ''L'' = Inr 2
          \<and> all_args x = Inr [(''l'', 1)] \<and> all_args y = Inr [(''l'', 2)]
          \<and> \<not> dicti_eq (=) [(''l'', 1::int)] [(''l'', 2)]
          \<and> \<not> elem_eq (=) b1 b2
          \<and> \<not> elem_eq (=) x (Element (Some (Stri ''x'')) (Some ''q'') [] (ElemBase b1))
          \<and> \<not> elem_eq (=) x (Element None (Some ''p'') [] (ElemBase b1))
          \<and> \<not> elem_eq (=) x (Element None (Some ''q'') (dicti_of [(''K1'', 3)]) (ElemBase b1))
          \<and> elem_eq (=) (Element (Some (Stri ''Q1'')) (Some ''QUADRUPOLE'') [] NoBase)
                         (Element (Some (Stri ''q1'')) (Some ''quadrupole'') [] (ElemBase b1))
          \<and> elem_eq (=) (Element (Some (Plain ''Q..0'')) (Some ''q'') [] NoBase)
                         (Element (Some (Stri ''q..0'')) (Some ''q'') [] NoBase)
          \<and> \<not> elem_eq (=) (Element (Some (Plain ''Q..0'')) (Some ''q'') [] NoBase)
                           (Element (Some (Plain ''q..0'')) (Some ''q'') [] NoBase))"
    by (simp add: Let_def elem_eq_def name_eq_def name_str_def text_of_def stri_eq_def str_opt_def
        dicti_eq_def dicti_of_def dicti_update_def dicti_set_def dicti_get_def lower_char_def)
qed

theorem eq_ignores_base_witness:
  "elem_eq (=) (Element (Some (Stri ''Q1'')) (Some ''QUADRUPOLE'') (dicti_of [(''K1'', 3::int)])
                  (ElemBase (Element (Some (Stri ''quadrupole'')) (Some ''quadrupole'')
                               (dicti_of [(''L'', 1)]) NoBase)))
               (Element (Some (Stri ''q1'')) (Some ''quadrupole'') (dicti_of [(''k1'', 3)]) NoBase)
   \<and> \<not> elem_eq (=) (Element (Some (Stri ''Q1'')) (Some ''QUADRUPOLE'') (dicti_of [(''K1'', 3::int)]) NoBase)
                    (Element (Some (Stri ''q1'')) (Some ''quadrupole'') (dicti_of [(''k1'', 4)]) NoBase)"
proof -
  have eq: "name_eq (Some (Stri ''Q1'')) (Some (Stri ''q1''))
        \<and> stri_eq (Some ''QUADRUPOLE'') (Some ''quadrupole'')
        \<and> dicti_eq (=) (dicti_of [(''K1'', 3::int)]) (dicti_of [(''k1'', 3)])"
    by (simp add: name_eq_def name_str_def text_of_def stri_eq_def str_opt_def dicti_eq_def
        dicti_of_def dicti_update_def dicti_set_def lower_char_def)
  have neq: "\<not> dicti_eq (=) (dicti_of [(''K1'', 3::int)]) (dicti_of [(''k1'', 4)])"
    by (simp add: dicti_eq_def dicti_of_def dicti_update_def dicti_set_def lower_char_def)
  from eq neq
    eq_ignores_base [of "(=)" "Some (Stri ''Q1'')" "Some ''QUADRUPOLE''" "dicti_of [(''K1'', 3::int)]"
      _ "Some (Stri ''q1'')" "Some ''quadrupole''" "dicti_of [(''k1'', 3)]" NoBase]
    eq_ignores_base [of "(=)" "Some (Stri ''Q1'')" "Some ''QUADRUPOLE''" "dicti_of [(''K1'', 3::int)]"
      NoBase "Some (Stri ''q1'')" "Some ''quadrupole''" "dicti_of [(''k1'', 4)]" NoBase]
  show ?thesis by blast
qed

section \<open>Composition of symbolic values\<close>

lemma compose_examples:
  "binop ''+'' (PDec (Dec 120 (- 1))) (Identifier ''pi'' ''='') = Composed ''12 + pi'' ''=''"
  "binop ''-'' (Identifier ''pi'' ''='') (PDec (Dec 120 (- 1))) = Composed ''pi - 12'' ''=''"
  "binop ''+'' (PInt (- 13)) (binop ''*'' (PDec (Dec 120 (- 1))) (Identifier ''pi'' ''=''))
     = Composed ''-13 + (12 * pi)'' ''=''"
  "binop ''/'' (Identifier ''pi'' ''='') (Identifier ''pi'' ''='') = Composed ''pi / pi'' ''=''"
  by (simp_all add: binop_def Composed_create_def getattr_def normalize_def dec_fix_def prec_def
      ndigits.simps strip_zeros.simps dec_str_def str_nat.simps str_int_def digit_char_def)

text \<open>
  C2. \<^verbatim>\<open>Composed.create\<close> asks both operands for the attribute \<^verbatim>\<open>assign\<close>, which
  no value has (\<^verbatim>\<open>Value.__init__\<close> stores the symbol as \<^verbatim>\<open>_assign\<close>), so the
  result's symbol is \<^verbatim>\<open>=\<close> for all operands: \<^verbatim>\<open>x + y\<close> with \<^verbatim>\<open>x\<close> marked
  \<^verbatim>\<open>:=\<close> yields a \<^verbatim>\<open>Composed\<close> marked \<^verbatim>\<open>=\<close>.
\<close>

theorem create_never_deferred:
  "marker (Identifier ''x'' '':='') = '':=''
   \<and> binop ''+'' (Identifier ''x'' '':='') (Identifier ''y'' ''='') = Composed ''x + y'' ''=''
   \<and> (\<forall>a x b. marker (Composed_create a x b) = ''='')"
  by (simp add: marker_def binop_def Composed_create_def getattr_def)

section \<open>Construction of a rule\<close>

text \<open>
  C1. \<^verbatim>\<open>ElementTransform.__init__\<close> calls \<^verbatim>\<open>exclusive\<close> for both pairs of
  keys and drops its answer, so a selector that gives both \<^verbatim>\<open>name\<close> and
  \<^verbatim>\<open>type\<close>, or both \<^verbatim>\<open>density\<close> and \<^verbatim>\<open>slice\<close>, yields a rule: the name and
  the density win. The only error of the constructor is the \<^verbatim>\<open>ValueError\<close> for an
  unknown style.
\<close>

theorem init_accepts_double_selector:
  "\<not> exclusive [(''name'', SStr ''q1''), (''type'', SStr ''quadrupole'')] [''name'', ''type'']
   \<and> ElementTransform_init [(''name'', SStr ''q1''), (''type'', SStr ''quadrupole'')]
       = Inr \<lparr>match = MatchName (SStr ''q1''), use_at = True, get_slice_num = SliceNum (SInt 1),
               makethin = False, template = False, distribution = Uniform\<rparr>
   \<and> \<not> exclusive [(''density'', SInt 2), (''slice'', SInt 3)] [''density'', ''slice'']
   \<and> ElementTransform_init [(''density'', SInt 2), (''slice'', SInt 3)]
       = Inr \<lparr>match = MatchAll, use_at = True, get_slice_num = Density (SInt 2),
               makethin = False, template = False, distribution = Uniform\<rparr>
   \<and> (\<forall>selector. (\<exists>t. ElementTransform_init selector = Inr t)
                   = (sel_get selector ''style'' (SStr ''uniform'') = SStr ''uniform''
                      \<or> sel_get selector ''style'' (SStr ''uniform'') = SStr ''loop''))"
  by (auto simp: exclusive_def sel_in_def sel_get_def ElementTransform_init_def Let_def)

section \<open>Evaluation of the model\<close>

lemmas model_defs =
  dicti_of_def dicti_update_def dicti_set_def dicti_get_def dicti_del_def
  dicti_contains_def dicti_setdefault_def lower_char_def stri_eq_def str_opt_def truthy_str_def
  text_of_def name_str_def stri_def truthy_name_def name_eq_def name_matches_def
  copy_def setitem_def delitem_def get_def pop_def
  dec_add_def dec_sub_def dec_neg_def dec_mul_def dec_div_def dec_fix_def dec_abs_def dec_ceil_def
  dec_eq_def prec_def round_half_even_def ndigits.simps strip_to_ideal.simps
  str_eq_def is_symbolic_def str_int_def str_nat.simps digit_char_def
  py_add.simps py_sub.simps py_mul.simps
  rescale_thick_def rescale_makethin_def maketempl_def stripelem_def
  uniform_slice_def uniform_slice_distribution_def uniform_slice_loop_def slice_def
  slice_num_of_def get_position_def stri_matches_def
  offsets_def refer_of_def defs_get_def transform_def
  head_def body_def tail_def SequenceTransform_call_def SequenceTransform_init_def
  ElementTransform_init_def sel_get_def sel_in_def exclusive_def
  node_name_def node_type_is_def by_name_of_def as_base_def line_member_def detect_def

section \<open>Rescaling to thin elements\<close>

text \<open>
  C7. \<^verbatim>\<open>rescale_makethin\<close> with ratio 0.5 on a quadrupole with K1 = 3 and L = 2.5
  returns an element of type \<^verbatim>\<open>multipole\<close> without \<^verbatim>\<open>K1\<close> whose \<^verbatim>\<open>KNL\<close> is
  \<^verbatim>\<open>[0, K1 * L * ratio]\<close>, that is \<^verbatim>\<open>[0, 3.75]\<close>, which is not equal to
  \<^verbatim>\<open>[0, 7.5]\<close>. (2.5 and 0.5 are taken as decimals; the products are exact, in
  decimal and in binary floating point.)
\<close>

theorem makethin_quadrupole_knl:
  "rescale_makethin
     (Element None (Some ''QUADRUPOLE'')
        (dicti_of [(''K1'', PInt 3), (''L'', PDec (Dec 25 (- 1)))]) NoBase)
     (PDec (Dec 5 (- 1)))
   = Inr (Element None (Some ''multipole'')
            [(''knl'', PList [PInt 0, PDec (Dec 375 (- 2))]), (''lrad'', PDec (Dec 125 (- 2)))]
            NoBase)
   \<and> getitem (Element None (Some ''multipole'')
            [(''knl'', PList [PInt 0, PDec (Dec 375 (- 2))]), (''lrad'', PDec (Dec 125 (- 2)))]
            NoBase) ''K1'' = Inl (KeyError ''K1'')
   \<and> \<not> py_eq (PList [PInt 0, PDec (Dec 375 (- 2))]) (PList [PInt 0, PDec (Dec 75 (- 1))])"
  by (simp add: model_defs Let_def split del: if_split)

section \<open>The length of a transformed sequence\<close>

lemma bind_result_eq_Inr:
  "bind_result m f = Inr r \<longleftrightarrow> (\<exists>x. m = Inr x \<and> f x = Inr r)"
  by (cases m) simp_all

lemma dicti_get_set_same [simp]: "dicti_get (dicti_set d key v) key = Some v"
  by (simp add: dicti_get_def dicti_set_def update_conv')

lemma getitem_setitem_same [simp]: "getitem (setitem e key v) key = Inr v"
  by (cases e) (simp add: setitem_def)








lemma bind_result_weak_cong: "m = m' \<Longrightarrow> bind_result m f = bind_result m' f"
  by simp

lemmas model_defs2 = model_defs rebased_def length_of_def




section \<open>Uniform slicing\<close>

lemma collect_Inr_length:
  "collect rs = Inr ys \<Longrightarrow> length ys = length rs \<and> (\<forall>i < length rs. rs ! i = Inr (ys ! i))"
proof (induction rs arbitrary: ys)
  case Nil
  then show ?case by simp
next
  case (Cons r rs)
  from Cons.prems obtain x xs where r: "r = Inr x" and xs: "collect rs = Inr xs" and ys: "ys = x # xs"
    by (auto simp: bind_result_eq_Inr)
  from Cons.IH [OF xs] r ys show ?case
    by (auto simp: nth_Cons split: nat.splits)
qed

lemma stri_simps [simp]:
  "stri (stri nm) = stri nm" "name_str (stri nm) = name_str nm"
  "truthy_name (stri nm) = truthy_name nm"
  by (auto simp: stri_def name_str_def truthy_name_def text_of_def split: option.splits)

lemma rescale_thick_name:
  "rescale_thick elem ratio = Inr scaled \<Longrightarrow> stri (name scaled) = stri (name elem)"
  by (auto simp: rescale_thick_def bind_result_eq_Inr Let_def setitem_def copy_def split: if_splits)

lemma pop_name: "pop e key dflt = Inr (v, e') \<Longrightarrow> name e' = name e"
  by (auto simp: pop_def split: option.splits sum.splits if_splits)

lemma delitem_name: "delitem e key = Inr e' \<Longrightarrow> name e' = name e"
  by (auto simp: delitem_def split: if_splits)

lemma setitem_name [simp]: "name (setitem e key v) = name e"
  by (simp add: setitem_def)

lemma copy_name [simp]: "name (copy e) = stri (name e)"
  by (simp add: copy_def)


lemma bind_result_InrE:
  assumes "bind_result m f = Inr r"
  obtains x where "m = Inr x" "f x = Inr r"
  using assms by (cases m) simp_all


lemma rescale_makethin_name:
  "rescale_makethin elem ratio = Inr scaled \<Longrightarrow> stri (name scaled) = stri (name elem)"
  unfolding rescale_makethin_def Let_def
  by (auto elim!: bind_result_InrE split: if_splits prod.splits dest!: pop_name delitem_name)

lemma dicti_get_set_other:
  "lower key' \<noteq> lower key \<Longrightarrow> dicti_get (dicti_set d key v) key' = dicti_get d key'"
  by (simp add: dicti_get_def dicti_set_def update_conv')

lemma getitem_args_base: "getitem (Element n t a b) key = getitem (Element n' t' a b) key"
  by simp

lemma getitem_setitem_other:
  "lower key' \<noteq> lower key \<Longrightarrow> getitem (setitem e key v) key' = getitem e key'"
  by (cases e) (simp add: setitem_def dicti_get_set_other)

lemma getitem_copy [simp]: "getitem (copy e) key = getitem e key"
  by (cases e) (simp add: copy_def)

lemma lower_at_L [simp]:
  "lower ''L'' \<noteq> lower ''at''" "lower ''L'' \<noteq> lower ''angle''"
  by (simp_all add: lower_char_def)

lemma rescale_thick_L:
  assumes "rescale_thick elem ratio = Inr scaled"
  shows "if py_eq ratio (PInt 1) then scaled = elem
         else \<exists>l0 ls. getitem elem ''L'' = Inr l0 \<and> py_mul l0 ratio = Inr ls
                      \<and> getitem scaled ''L'' = Inr ls"
proof (cases "py_eq ratio (PInt 1)")
  case True
  with assms show ?thesis by (simp add: rescale_thick_def)
next
  case False
  with assms have "\<exists>l0 ls. getitem elem ''L'' = Inr l0 \<and> py_mul l0 ratio = Inr ls
                      \<and> getitem scaled ''L'' = Inr ls"
    by (auto simp: rescale_thick_def Let_def getitem_setitem_other
        elim!: bind_result_InrE split: if_splits)
  with False show ?thesis by simp
qed

text \<open>
  C5 (amended). When a rule with the uniform style slices an element without raising,
  with \<open>n\<close> the number of slices it uses (the rule's number, or 1 where that is false),
  \<open>pos\<close> the entry position of the element, \<open>slice_len = Decimal(L) / n\<close> and
  \<open>ratio = 1 / Decimal(n)\<close> in decimal arithmetic: it emits \<open>n\<close> element slices (none for a
  negative number); slice \<open>i\<close> has \<^verbatim>\<open>at = pos + (i + refer) * slice_len\<close>; under a rule
  without template, the slice of a named element is named \<^verbatim>\<open>name..i\<close> when \<open>n > 1\<close>
  and keeps the name otherwise; under a rule without template and without makethin, each
  slice has the length \<^verbatim>\<open>L * ratio\<close>, and the element's own length when the ratio is 1.
\<close>

theorem uniform_slicing:
  assumes ok: "slice t elem offset refer = Inr (templ, elems, new_offset)"
    and uni: "distribution t = Uniform"
  shows "\<exists>l pos sn n dl slice_len ratio.
      get elem ''L'' (PInt 0) = Inr l
    \<and> get_position (use_at t) elem l offset refer = Inr pos
    \<and> slice_num_of (get_slice_num t) l = Inr sn
    \<and> slice_count (if truthy sn then sn else SInt 1) = Inr n
    \<and> Decimal l = Inr dl \<and> dec_div dl (Dec n 0) = Inr slice_len
    \<and> dec_div (Dec 1 0) (Dec n 0) = Inr ratio
    \<and> length elems = nat n
    \<and> (\<forall>i < nat n. \<exists>e ir d at.
          elems ! i = ElementN e
        \<and> py_add (PInt (int i)) refer = Inr ir
        \<and> py_mul ir (PDec slice_len) = Inr d
        \<and> py_add pos d = Inr at
        \<and> getitem e ''at'' = Inr at
        \<and> (\<not> template t \<longrightarrow>
              name e = (if truthy_name (name elem) \<and> 1 < n
                        then Some (Plain (name_str (name elem) @ ''..'' @ str_int (int i)))
                        else stri (name elem)))
        \<and> (\<not> template t \<and> \<not> makethin t \<longrightarrow>
              (if py_eq (PDec ratio) (PInt 1) then getitem e ''L'' = getitem elem ''L''
               else \<exists>l0 ls. getitem elem ''L'' = Inr l0 \<and> py_mul l0 (PDec ratio) = Inr ls
                            \<and> getitem e ''L'' = Inr ls)))"
proof -
  from ok uni obtain l pos sn dl n slice_len ratio scaled where
    l: "get elem ''L'' (PInt 0) = Inr l" and
    pos: "get_position (use_at t) elem l offset refer = Inr pos" and
    sn: "slice_num_of (get_slice_num t) l = Inr sn" and
    dl: "Decimal l = Inr dl" and
    n: "slice_count (if truthy sn then sn else SInt 1) = Inr n" and
    sl: "dec_div dl (Dec n 0) = Inr slice_len" and
    ratio: "dec_div (Dec 1 0) (Dec n 0) = Inr ratio" and
    scaled: "(if makethin t then rescale_makethin else rescale_thick) elem (PDec ratio) = Inr scaled" and
    dist: "uniform_slice_distribution (stripelem (template t) scaled) pos refer n slice_len = Inr elems"
    by (auto simp: slice_def Let_def elim!: bind_result_InrE)
  let ?el = "stripelem (template t) scaled"
  from dist have len: "length elems = nat n"
    and each: "\<forall>i < nat n. uniform_slice ?el pos refer n slice_len (int i) = Inr (elems ! i)"
    by (auto simp: uniform_slice_distribution_def dest!: collect_Inr_length)
  from scaled have nm: "stri (name scaled) = stri (name elem)"
    by (auto dest: rescale_thick_name rescale_makethin_name split: if_splits)
  have "\<exists>e ir d at.
          elems ! i = ElementN e
        \<and> py_add (PInt (int i)) refer = Inr ir
        \<and> py_mul ir (PDec slice_len) = Inr d
        \<and> py_add pos d = Inr at
        \<and> getitem e ''at'' = Inr at
        \<and> (\<not> template t \<longrightarrow>
              name e = (if truthy_name (name elem) \<and> 1 < n
                        then Some (Plain (name_str (name elem) @ ''..'' @ str_int (int i)))
                        else stri (name elem)))
        \<and> (\<not> template t \<and> \<not> makethin t \<longrightarrow>
              (if py_eq (PDec ratio) (PInt 1) then getitem e ''L'' = getitem elem ''L''
               else \<exists>l0 ls. getitem elem ''L'' = Inr l0 \<and> py_mul l0 (PDec ratio) = Inr ls
                            \<and> getitem e ''L'' = Inr ls))" if i: "i < nat n" for i
  proof -
    from each i have u: "uniform_slice ?el pos refer n slice_len (int i) = Inr (elems ! i)" by simp
    then obtain ir d at where
      ir: "py_add (PInt (int i)) refer = Inr ir" and d: "py_mul ir (PDec slice_len) = Inr d" and
      at: "py_add pos d = Inr at" and
      e: "elems ! i =
            (if truthy_name (name ?el) \<and> 1 < n
             then ElementN (Element (Some (Plain (name_str (name ?el) @ ''..'' @ str_int (int i))))
                    (type (setitem (copy ?el) ''at'' at)) (args (setitem (copy ?el) ''at'' at))
                    (base (setitem (copy ?el) ''at'' at)))
             else ElementN (setitem (copy ?el) ''at'' at))"
      by (auto simp: uniform_slice_def Let_def elim!: bind_result_InrE split: if_splits)
    define e' where "e' = (if truthy_name (name ?el) \<and> 1 < n
             then Element (Some (Plain (name_str (name ?el) @ ''..'' @ str_int (int i))))
                    (type (setitem (copy ?el) ''at'' at)) (args (setitem (copy ?el) ''at'' at))
                    (base (setitem (copy ?el) ''at'' at))
             else setitem (copy ?el) ''at'' at)"
    from e have e1: "elems ! i = ElementN e'" by (simp add: e'_def)
    have get_e': "getitem e' key = getitem (setitem (copy ?el) ''at'' at) key" for key
      by (cases "setitem (copy ?el) ''at'' at") (simp add: e'_def)
    have at_e': "getitem e' ''at'' = Inr at" by (simp add: get_e')
    have name_e': "\<not> template t \<Longrightarrow>
              name e' = (if truthy_name (name elem) \<and> 1 < n
                        then Some (Plain (name_str (name elem) @ ''..'' @ str_int (int i)))
                        else stri (name elem))"
    proof -
      assume "\<not> template t"
      then have el: "?el = scaled" by (simp add: stripelem_def)
      have "truthy_name (name scaled) = truthy_name (name elem)"
        "name_str (name scaled) = name_str (name elem)"
        using nm stri_simps by metis+
      with el nm show ?thesis by (simp add: e'_def)
    qed
    have L_e': "if py_eq (PDec ratio) (PInt 1) then getitem e' ''L'' = getitem elem ''L''
               else \<exists>l0 ls. getitem elem ''L'' = Inr l0 \<and> py_mul l0 (PDec ratio) = Inr ls
                            \<and> getitem e' ''L'' = Inr ls"
      if "\<not> template t" "\<not> makethin t"
    proof -
      from that scaled have "rescale_thick elem (PDec ratio) = Inr scaled" by simp
      from rescale_thick_L [OF this] that show ?thesis
        by (auto simp: get_e' stripelem_def getitem_setitem_other split: if_splits)
    qed
    from e1 ir d at at_e' name_e' L_e' show ?thesis by blast
  qed
  with l pos sn n dl sl ratio len show ?thesis by blast
qed

section \<open>The addressing style of a sequence\<close>

lemma detect_inner_prefix: "\<exists>ys. fst (detect_inner seq elem it) = seq @ ys"
proof (induction it arbitrary: seq elem)
  case Nil
  then show ?case by simp
next
  case (Cons e it)
  show ?case
  proof (cases "node_type_is e ''endsequence''")
    case True
    then show ?thesis by simp
  next
    case False
    from Cons [of "seq @ [e]" e] obtain ys where "fst (detect_inner (seq @ [e]) e it) = (seq @ [e]) @ ys"
      by blast
    with False show ?thesis by simp
  qed
qed

lemma refer_of_entry:
  "dicti_get a ''refer'' = Some (PStr ''entry'') \<Longrightarrow> refer_of (copy (Element n t a b)) = Inr (PInt 0)"
  by (simp add: refer_of_def copy_def get_def offsets_def dicti_of_def dicti_update_def dicti_set_def
      dicti_get_def lower_char_def)

lemma refer_of_injected:
  assumes "\<not> dicti_contains a ''refer''"
  shows "refer_of (copy (Element n t (dicti_setdefault a ''refer'' (PStr ''entry'')) b)) = Inr (PInt 0)"
  using assms by (intro refer_of_entry) (simp add: dicti_setdefault_def)

lemma dicti_contains_setdefault [simp]: "dicti_contains (dicti_setdefault a key v) key"
  by (simp add: dicti_setdefault_def dicti_contains_def)


lemma detect_inner_rest_subset: "set (snd (snd (detect_inner seq elem it))) \<subseteq> set it"
  by (induction it arbitrary: seq elem) auto

lemma collect_Inr_iff_simp: "collect (r # rs) = Inr ys \<longleftrightarrow> (\<exists>x xs. r = Inr x \<and> collect rs = Inr xs \<and> ys = x # xs)"
  by (auto simp: bind_result_eq_Inr)

lemma detect_loop_heads:
  assumes "detect_loop bn inline it = Inr items" and "SequenceI s \<in> set items"
  shows "\<exists>h. head s = Inr (ElementN h) \<and> dicti_contains (args h) ''refer''
          \<and> ((\<exists>e. ElementN e \<in> set it \<and> stri_eq (type e) (Some ''sequence'')
                 \<and> h = Element (name e) (type e)
                         (dicti_setdefault (args e) ''refer'' (PStr ''entry'')) (base e)
                 \<and> (\<not> dicti_contains (args e) ''refer'' \<longrightarrow> refer_of (copy h) = Inr (PInt 0)))
             \<or> (\<exists>nm els. LineN nm els \<in> set it
                 \<and> h = Element (map_option Stri nm) (Some ''sequence'')
                         (dicti_of [(''refer'', PStr ''entry'')]) NoBase
                 \<and> refer_of (copy h) = Inr (PInt 0)))"
  using assms
proof (induction "length it" arbitrary: it items rule: less_induct)
  case less
  show ?case
  proof (cases it)
    case Nil
    with less.prems show ?thesis by simp
  next
    case (Cons elem rest)
    show ?thesis
    proof (cases "node_type_is elem ''sequence''")
      case seq: True
      then obtain e where e: "elem = ElementN e" and ty: "stri_eq (type e) (Some ''sequence'')"
        by (cases elem) (auto simp: node_type_is_def)
      define h where "h = Element (name e) (type e) (dicti_setdefault (args e) ''refer'' (PStr ''entry'')) (base e)"
      define r where "r = detect_inner [ElementN h] (ElementN h) rest"
      from less.prems(1) Cons seq e obtain out where
        out: "detect_loop bn inline (snd (snd r)) = Inr out" and
        items: "items = SequenceI (Sequence (fst r) []) # out"
        by (auto simp: Let_def h_def r_def bind_result_eq_Inr split: if_splits)
      from less.prems(2) items consider "s = Sequence (fst r) []" | "SequenceI s \<in> set out" by auto
      then show ?thesis
      proof cases
        case 1
        from detect_inner_prefix [of "[ElementN h]" "ElementN h" rest] obtain ys where
          "fst r = ElementN h # ys" by (auto simp: r_def)
        with 1 have hd: "head s = Inr (ElementN h)" by (simp add: head_def)
        have "dicti_contains (args h) ''refer''" by (simp add: h_def)
        moreover have "\<not> dicti_contains (args e) ''refer'' \<longrightarrow> refer_of (copy h) = Inr (PInt 0)"
          by (simp add: h_def refer_of_injected)
        ultimately show ?thesis using hd e ty h_def Cons by auto
      next
        case 2
        have len: "length (snd (snd r)) < length it"
          using detect_inner_rest_length [of "[ElementN h]" "ElementN h" rest] Cons
          by (simp add: r_def)
        have sub: "set (snd (snd r)) \<subseteq> set it"
          using detect_inner_rest_subset [of "[ElementN h]" "ElementN h" rest] Cons
          by (auto simp: r_def)
        from less.hyps [OF len out 2] sub show ?thesis by blast
      qed
    next
      case nseq: False
      show ?thesis
      proof (cases "node_type_is elem ''line''")
        case line: True
        from less.prems(1) Cons nseq line obtain nm els where ln: "elem = LineN nm els"
          by (cases elem) auto
        define h where "h = (Element (map_option Stri nm) (Some ''sequence'')
                         (dicti_of [(''refer'', PStr ''entry'')]) NoBase :: pyval element)"
        from less.prems(1) Cons nseq line ln obtain members out where
          out: "detect_loop bn inline rest = Inr out" and
          items: "items = SequenceI (Sequence ([ElementN h] @ members
                    @ [ElementN (Element None (Some ''endsequence'') [] NoBase)]) []) # out"
          by (auto simp: h_def bind_result_eq_Inr)
        from less.prems(2) items consider
          "s = Sequence ([ElementN h] @ members
                    @ [ElementN (Element None (Some ''endsequence'') [] NoBase)]) []"
          | "SequenceI s \<in> set out" by auto
        then show ?thesis
        proof cases
          case 1
          then have hd: "head s = Inr (ElementN h)" by (simp add: head_def)
          have c: "dicti_contains (args h) ''refer''"
            by (simp add: h_def dicti_contains_def dicti_get_def dicti_of_def dicti_update_def
                dicti_set_def lower_char_def)
          have "refer_of (copy h) = Inr (PInt 0)"
            unfolding h_def
            by (intro refer_of_entry)
               (simp add: dicti_get_def dicti_of_def dicti_update_def dicti_set_def lower_char_def)
          with hd c ln Cons h_def show ?thesis by auto
        next
          case 2
          from less.hyps [OF _ out 2] Cons show ?thesis by auto
        qed
      next
        case nline: False
        from less.prems(1) Cons nseq nline obtain out where
          out: "detect_loop bn inline rest = Inr out" and items: "items = NodeI elem # out"
          by (auto simp: bind_result_eq_Inr)
        from less.prems(2) items have "SequenceI s \<in> set out" by auto
        from less.hyps [OF _ out this] Cons show ?thesis by auto
      qed
    qed
  qed
qed

text \<open>
  C6. Every sequence that \<^verbatim>\<open>Sequence.detect\<close> yields has an element as its head, and
  that head has a \<^verbatim>\<open>refer\<close> argument. The head is either an element of type
  \<^verbatim>\<open>sequence\<close> of the input after \<^verbatim>\<open>args.setdefault('refer', 'entry')\<close>, or the
  head built for a LINE with \<^verbatim>\<open>refer = entry\<close>. When the element of the input had no
  \<^verbatim>\<open>refer\<close> argument, and for every LINE, the multiplier that
  \<^verbatim>\<open>SequenceTransform.__call__\<close> looks up for the copy of the head is 0, the entry
  convention. (The fallback \<^verbatim>\<open>'centre'\<close> of \<^verbatim>\<open>head.get('refer', 'centre')\<close> is
  therefore never used for a sequence that comes from \<^verbatim>\<open>detect\<close>.)
\<close>

theorem detected_head_refer_defaults_to_entry:
  assumes "detect elems inline = Inr items" and "SequenceI s \<in> set items"
  shows "\<exists>h. head s = Inr (ElementN h) \<and> dicti_contains (args h) ''refer''
          \<and> ((\<exists>e. ElementN e \<in> set elems \<and> stri_eq (type e) (Some ''sequence'')
                 \<and> h = Element (name e) (type e)
                         (dicti_setdefault (args e) ''refer'' (PStr ''entry'')) (base e)
                 \<and> (\<not> dicti_contains (args e) ''refer'' \<longrightarrow> refer_of (copy h) = Inr (PInt 0)))
             \<or> (\<exists>nm els. LineN nm els \<in> set elems
                 \<and> h = Element (map_option Stri nm) (Some ''sequence'')
                         (dicti_of [(''refer'', PStr ''entry'')]) NoBase
                 \<and> refer_of (copy h) = Inr (PInt 0)))"
  using assms unfolding detect_def by (rule detect_loop_heads)

theorem detected_head_refer_defaults_to_entry_witness:
  "detect [ElementN (Element (Some (Stri ''s'')) (Some ''sequence'') [] NoBase),
           ElementN (Element (Some (Stri ''q'')) (Some ''quadrupole'')
                       (dicti_of [(''L'', PInt 2)]) NoBase),
           ElementN (Element None (Some ''endsequence'') [] NoBase)] False
     = Inr [SequenceI (Sequence
              [ElementN (Element (Some (Stri ''s'')) (Some ''sequence'') [(''refer'', PStr ''entry'')] NoBase),
               ElementN (Element (Some (Stri ''q'')) (Some ''quadrupole'') [(''l'', PInt 2)] NoBase),
               ElementN (Element None (Some ''endsequence'') [] NoBase)] [])]
   \<and> refer_of (copy (Element (Some (Stri ''s'')) (Some ''sequence'') [(''refer'', PStr ''entry'')] NoBase))
     = Inr (PInt 0)
   \<and> bind_result (SequenceTransform_init []) (\<lambda>ts.
       SequenceTransform_call ts
         (Sequence
              [ElementN (Element (Some (Stri ''s'')) (Some ''sequence'') [(''refer'', PStr ''entry'')] NoBase),
               ElementN (Element (Some (Stri ''q'')) (Some ''quadrupole'') [(''l'', PInt 2)] NoBase),
               ElementN (Element None (Some ''endsequence'') [] NoBase)] []) [])
     = Inr (Sequence [ElementN (Element (Some (Stri ''s'')) (Some ''sequence'')
                                  [(''refer'', PStr ''entry''), (''l'', PInt 2)] NoBase),
                      ElementN (Element (Some (Stri ''q'')) (Some ''quadrupole'')
                                  [(''l'', PInt 2), (''at'', PDec (Dec 0 0))] NoBase),
                      ElementN (Element None (Some ''endsequence'') [] NoBase)] [])"
proof -
  let ?E = "[ElementN (Element (Some (Stri ''s'')) (Some ''sequence'') [] NoBase),
           ElementN (Element (Some (Stri ''q'')) (Some ''quadrupole'')
                       (dicti_of [(''L'', PInt 2)]) NoBase),
           ElementN (Element None (Some ''endsequence'') [] NoBase)]"
  let ?H = "Element (Some (Stri ''s'')) (Some ''sequence'') [(''refer'', PStr ''entry'')] NoBase :: pyval element"
  let ?S = "Sequence
              [ElementN ?H,
               ElementN (Element (Some (Stri ''q'')) (Some ''quadrupole'') [(''l'', PInt 2)] NoBase),
               ElementN (Element None (Some ''endsequence'') [] NoBase)] []"
  have d: "detect ?E False = Inr [SequenceI ?S]"
    by (simp add: model_defs Let_def split del: if_split)
  have m: "SequenceI ?S \<in> set [SequenceI ?S]" by simp
  from detected_head_refer_defaults_to_entry [OF d m]
  have r: "refer_of (copy ?H) = Inr (PInt 0)"
    by (auto simp: head_def dicti_setdefault_def dicti_contains_def dicti_get_def dicti_set_def
          dicti_of_def dicti_update_def)
  have run: "bind_result (SequenceTransform_init []) (\<lambda>ts. SequenceTransform_call ts ?S [])
     = Inr (Sequence [ElementN (Element (Some (Stri ''s'')) (Some ''sequence'')
                                  [(''refer'', PStr ''entry''), (''l'', PInt 2)] NoBase),
                      ElementN (Element (Some (Stri ''q'')) (Some ''quadrupole'')
                                  [(''l'', PInt 2), (''at'', PDec (Dec 0 0))] NoBase),
                      ElementN (Element None (Some ''endsequence'') [] NoBase)] [])"
    by (simp add: model_defs2 Let_def upt_conv_Cons split del: if_split cong: bind_result_weak_cong)
  from d r run show ?thesis by blast
qed

end
